theory Spec2Isabelle
  imports Main "HOL-Library.Word"
begin

section \<open>IR generation for MiniC: a shallow embedding of IRGenerator.cpp\<close>

text \<open>
  The generator walks the abstract syntax tree of a translation unit and produces, for
  every function, a linear list of three-address instructions.  Each handler of
  \<^verbatim>\<open>IRGenerator.cpp\<close> writes into the instruction buffer (\<^verbatim>\<open>blockInsts\<close>) and the value
  slot (\<^verbatim>\<open>val\<close>) of the node it is given and returns a success flag.  In the embedding a
  handler takes the generator state and returns the three things it leaves on the node
  together with the new state.  A dereference of a null pointer has no result: the
  handlers return \<open>None\<close> there.
\<close>

subsection \<open>Types, values and instructions\<close>

text \<open>Modelled from the spec: the closed set of types (32-bit integer, one-bit boolean,
  void) behind \<^verbatim>\<open>IntegerType::getTypeInt()\<close>, \<^verbatim>\<open>IntegerType::getTypeBool()\<close> and
  \<^verbatim>\<open>isVoidType()\<close>; the generator names the operators below in its calls.\<close>

datatype Type = IntegerType_Int | IntegerType_Bool | VoidType

definition isVoidType :: "Type \<Rightarrow> bool" where
  "isVoidType t = (t = VoidType)"

datatype IRInstOperator =
    IRINST_OP_ADD_I | IRINST_OP_SUB_I | IRINST_OP_MUL_I | IRINST_OP_DIV_I | IRINST_OP_MOD_I
  | IRINST_OP_NEG_I
  | IRINST_OP_EQ_I | IRINST_OP_NE_I | IRINST_OP_LT_I | IRINST_OP_LE_I | IRINST_OP_GT_I
  | IRINST_OP_GE_I
  | IRINST_OP_BT | IRINST_OP_BF | IRINST_OP_BC

text \<open>
  A label object is represented by its name, which is what the textual IR prints as a
  branch target.  \<open>NamedLabel s\<close> is \<^verbatim>\<open>new LabelInstruction(func, s)\<close>; \<open>UnnamedLabel\<close> is
  \<^verbatim>\<open>new LabelInstruction(func)\<close>, which \<^verbatim>\<open>ir_function_define\<close> creates once per function as
  the exit label.
\<close>

datatype LabelInstruction = NamedLabel string | UnnamedLabel

text \<open>
  Modelled from the spec: the value and instruction variants of its data model, with the
  fields the generator passes to their constructors.
  Operands are pointers to values and may be null (an identifier that is not found leaves
  a null \<^verbatim>\<open>val\<close>), hence \<open>Value option\<close>.  Binary, unary and call instructions are values
  themselves.  The owning-function pointer that every instruction carries plays no part in
  the translation and is left out.  A callee is referred to by its name, the key of the
  function registry.
\<close>

datatype Value =
    ConstInt "32 word"
  | LocalVariable Type string nat
  | GlobalVariable Type string
  | FormalParameter Type string
  | InstValue Instruction
and Instruction =
    EntryInstruction
  | ExitInstruction "Value option"
  | Label LabelInstruction
  | MoveInstruction "Value option" "Value option"
  | BinaryInstruction IRInstOperator "Value option" "Value option" Type
  | UnaryInstruction IRInstOperator "Value option" Type
  | BranchInstruction IRInstOperator "Value option" LabelInstruction
  | GotoInstruction "LabelInstruction option"
  | FuncCallInstruction string "Value option list" Type

subsection \<open>Functions, the module and the generator state\<close>

text \<open>Modelled from the spec: the fields of a function that the generator reads and
  writes through its getters and setters.  The name is the key of the registry.\<close>

record Function =
  returnType :: Type
  params :: "Value list"
  interCode :: "Instruction list"
  exitLabel :: "LabelInstruction option"
  returnValue :: "Value option"
  existFuncCall :: bool
  maxFuncCallArgCnt :: int

text \<open>The messages of the four \<^verbatim>\<open>minic_log(LOG_ERROR, ...)\<close> calls: the callee is not found
  (with its name); the argument count differs from the formal count (with the line of the
  name and the name); \<open>break\<close> and \<open>continue\<close> outside a loop.\<close>

datatype log_message =
    FuncUndefined string
  | FuncCallMismatch int string
  | BreakOutsideLoop
  | ContinueOutsideLoop

record LoopContext =
  loop_entry_label :: string
  loop_body_label :: string
  loop_exit_label :: string

text \<open>
  One record holds the state the handlers act on: the module the generator points to
  (\<open>funcs\<close>, \<open>scopeStack\<close>, \<open>currentFunc\<close>, \<open>varCount\<close>), the generator's own
  \<^verbatim>\<open>loop_contexts\<close> stack (top first), the static counter of \<^verbatim>\<open>generateLabel\<close>, and the
  messages written with \<^verbatim>\<open>minic_log(LOG_ERROR, ...)\<close>.  A pointer to a function is the
  function's name; the scope stack has the innermost frame first.
\<close>

record IRGenerator =
  funcs :: "string \<rightharpoonup> Function"
  scopeStack :: "(string \<times> Value) list list"
  currentFunc :: "string option"
  varCount :: nat
  loop_contexts :: "LoopContext list"
  labelCount :: nat
  errors :: "log_message list"

definition minic_log :: "log_message \<Rightarrow> IRGenerator \<Rightarrow> IRGenerator" where
  "minic_log m g = g\<lparr>errors := errors g @ [m]\<rparr>"

text \<open>Modelled from the spec: \<^verbatim>\<open>Module::findFunction\<close>, the lookup in the registry of
  declared functions keyed by name.\<close>

definition findFunction :: "string \<Rightarrow> IRGenerator \<Rightarrow> Function option" where
  "findFunction nm g = funcs g nm"

text \<open>Modelled from the spec: \<^verbatim>\<open>Module::newFunction\<close>, which fails if the name is taken and
  otherwise registers a function with no instructions, no formal parameters, no exit label
  and no return value yet.\<close>

definition newFunction :: "string \<Rightarrow> Type \<Rightarrow> IRGenerator \<Rightarrow> IRGenerator option" where
  "newFunction nm ty g =
     (case funcs g nm of
        Some F \<Rightarrow> None
      | None \<Rightarrow> Some (g\<lparr>funcs := (funcs g)(nm \<mapsto>
          \<lparr>returnType = ty, params = [], interCode = [], exitLabel = None,
           returnValue = None, existFuncCall = False, maxFuncCallArgCnt = 0\<rparr>)\<rparr>))"

text \<open>Modelled from the spec: \<^verbatim>\<open>Module::setCurrentFunction\<close>, the write to the
  current-function slot.\<close>

definition setCurrentFunction :: "string option \<Rightarrow> IRGenerator \<Rightarrow> IRGenerator" where
  "setCurrentFunction f g = g\<lparr>currentFunc := f\<rparr>"

text \<open>Modelled from the spec: \<^verbatim>\<open>Module::enterScope\<close> and \<^verbatim>\<open>Module::leaveScope\<close>, which push
  and pop a frame of the stack of lexical scopes.\<close>

definition enterScope :: "IRGenerator \<Rightarrow> IRGenerator" where
  "enterScope g = g\<lparr>scopeStack := [] # scopeStack g\<rparr>"

definition leaveScope :: "IRGenerator \<Rightarrow> IRGenerator" where
  "leaveScope g = g\<lparr>scopeStack := (case scopeStack g of [] \<Rightarrow> [] | s # ss \<Rightarrow> ss)\<rparr>"

text \<open>Modelled from the spec: \<^verbatim>\<open>Module::newVarValue\<close>.  With a name it declares a fresh
  local in the current (innermost) scope; without one it allocates a fresh temporary,
  which no identifier denotes.  The counter for naming locals and temporaries makes
  the value fresh.\<close>

definition bindValue :: "string option \<Rightarrow> Value \<Rightarrow> (string \<times> Value) list list
    \<Rightarrow> (string \<times> Value) list list" where
  "bindValue nm v ss =
     (case nm of
        None \<Rightarrow> ss
      | Some n \<Rightarrow> (case ss of [] \<Rightarrow> [] | s # rest \<Rightarrow> ((n, v) # s) # rest))"

definition newVarValue :: "Type \<Rightarrow> string option \<Rightarrow> IRGenerator \<Rightarrow> Value \<times> IRGenerator" where
  "newVarValue ty nm g =
     (let v = LocalVariable ty (case nm of None \<Rightarrow> [] | Some n \<Rightarrow> n) (varCount g)
      in (v, g\<lparr>varCount := Suc (varCount g), scopeStack := bindValue nm v (scopeStack g)\<rparr>))"

text \<open>Modelled from the spec: \<^verbatim>\<open>Module::findVarValue\<close>, which scans the scope frames from
  the innermost outward; the first hit wins.\<close>

fun findInScopes :: "string \<Rightarrow> (string \<times> Value) list list \<Rightarrow> Value option" where
  "findInScopes nm [] = None"
| "findInScopes nm (s # ss) =
     (case map_of s nm of Some v \<Rightarrow> Some v | None \<Rightarrow> findInScopes nm ss)"

definition findVarValue :: "string \<Rightarrow> IRGenerator \<Rightarrow> Value option" where
  "findVarValue nm g = findInScopes nm (scopeStack g)"

text \<open>Modelled from the spec: \<^verbatim>\<open>Module::newConstInt\<close>, the integer constant of the
  module's constant pool.\<close>

definition newConstInt :: "32 word \<Rightarrow> Value" where
  "newConstInt i = ConstInt i"

text \<open>Reads and writes through a function pointer.  \<open>derefFunc\<close> has no result for the null
  pointer (and for a name that is not registered, which no handler produces).\<close>

definition derefFunc :: "string option \<Rightarrow> IRGenerator \<Rightarrow> Function option" where
  "derefFunc p g = (case p of None \<Rightarrow> None | Some f \<Rightarrow> funcs g f)"

definition updFunc :: "string \<Rightarrow> (Function \<Rightarrow> Function) \<Rightarrow> IRGenerator \<Rightarrow> IRGenerator" where
  "updFunc f h g = g\<lparr>funcs := (funcs g)(f := map_option h (funcs g f))\<rparr>"

definition addInst :: "string \<Rightarrow> Instruction list \<Rightarrow> IRGenerator \<Rightarrow> IRGenerator" where
  "addInst f insts g = updFunc f (\<lambda>F. F\<lparr>interCode := interCode F @ insts\<rparr>) g"

subsection \<open>Labels\<close>

text \<open>\<^verbatim>\<open>std::to_string\<close> on a non-negative count: its decimal digits.  The counter of
  \<^verbatim>\<open>generateLabel\<close> is a static \<^verbatim>\<open>int\<close> that starts at 0 and is only incremented; it is a
  natural number here.\<close>

definition digit_char :: "nat \<Rightarrow> char" where
  "digit_char d = ''0123456789'' ! d"

function to_string :: "nat \<Rightarrow> string" where
  "to_string n = (if n < 10 then [digit_char n]
                  else to_string (n div 10) @ [digit_char (n mod 10)])"
  by pat_completeness auto
termination
  by (relation "measure id") auto

declare to_string.simps [simp del]

definition generateLabel :: "IRGenerator \<Rightarrow> string \<times> IRGenerator" where
  "generateLabel g = (''L'' @ to_string (labelCount g), g\<lparr>labelCount := Suc (labelCount g)\<rparr>)"

subsection \<open>The abstract syntax tree\<close>

text \<open>
  The tree has one constructor per operator tag that has a handler, with the children the
  input contract gives the tag: two for binary operators, one for unary ones, condition,
  then-branch and optional else-branch for \<open>IF\<close>, an optional expression for \<open>RETURN\<close>.
  The five arithmetic handlers differ only in the opcode they emit, and so do the six
  relational ones; their nodes are \<open>ARITH\<close> and \<open>REL\<close> with the operator tag.
  \<open>AST_OP_FUNC_CALL\<close> carries the name and line of its name leaf and the children of its
  parameter list.  \<open>AST_OP_FUNC_DEF\<close> carries the return type of its type leaf, the name
  of its name leaf, the formals of its parameter node and the statements of its body
  block.  A declaration statement carries the type and name of each of its
  \<open>VAR_DECL\<close> children.  \<open>AST_OP_BLOCK\<close> carries the \<^verbatim>\<open>needScope\<close> flag.  \<open>AST_OP_OTHER\<close>
  is a node whose tag has no handler.  The \<^verbatim>\<open>true_label\<close> and \<^verbatim>\<open>false_label\<close> slots of a
  node, which \<^verbatim>\<open>ir_not\<close> swaps and no handler reads, are left out.
\<close>

datatype arith_tag = AST_OP_ADD | AST_OP_SUB | AST_OP_MUL | AST_OP_DIV | AST_OP_MOD

datatype rel_tag = AST_OP_EQ | AST_OP_NE | AST_OP_LT | AST_OP_LE | AST_OP_GT | AST_OP_GE

datatype ast_node =
    AST_OP_LEAF_LITERAL_UINT "32 word"
  | AST_OP_LEAF_VAR_ID string
  | AST_OP_LEAF_TYPE Type
  | ARITH arith_tag ast_node ast_node
  | AST_OP_NEG ast_node
  | AST_OP_AND ast_node ast_node
  | AST_OP_OR ast_node ast_node
  | AST_OP_NOT ast_node
  | REL rel_tag ast_node ast_node
  | AST_OP_ASSIGN ast_node ast_node
  | AST_OP_RETURN "ast_node option"
  | AST_OP_IF ast_node ast_node "ast_node option"
  | AST_OP_WHILE ast_node ast_node
  | AST_OP_BREAK
  | AST_OP_CONTINUE
  | AST_OP_FUNC_CALL string int "ast_node list"
  | AST_OP_FUNC_DEF Type string "(Type \<times> string) list" "ast_node list"
  | AST_OP_FUNC_FORMAL_PARAMS "(Type \<times> string) list"
  | AST_OP_DECL_STMT "(Type \<times> string) list"
  | AST_OP_VAR_DECL Type string
  | AST_OP_BLOCK bool "ast_node list"
  | AST_OP_OTHER nat

text \<open>The root of the tree is the compile unit, whose children are the top-level items.\<close>

datatype compile_unit = AST_OP_COMPILE_UNIT "ast_node list"

text \<open>What a handler leaves on its node, and what a loop over children collects.\<close>

record ast_out =
  ok :: bool
  blockInsts :: "Instruction list"
  val :: "Value option"

record sons_out =
  sons_ok :: bool
  sons_insts :: "Instruction list"
  sons_vals :: "Value option list"

definition mk_out :: "bool \<Rightarrow> Instruction list \<Rightarrow> Value option \<Rightarrow> ast_out" where
  "mk_out b insts v = \<lparr>ok = b, blockInsts = insts, val = v\<rparr>"

subsection \<open>Handlers without recursion\<close>

definition ir_default :: "IRGenerator \<Rightarrow> ast_out \<times> IRGenerator" where
  "ir_default g = (mk_out True [] None, g)"

definition ir_leaf_node_type :: "IRGenerator \<Rightarrow> ast_out \<times> IRGenerator" where
  "ir_leaf_node_type g = (mk_out True [] None, g)"

definition ir_leaf_node_var_id :: "string \<Rightarrow> IRGenerator \<Rightarrow> ast_out \<times> IRGenerator" where
  "ir_leaf_node_var_id nm g = (mk_out True [] (findVarValue nm g), g)"

definition ir_leaf_node_uint :: "32 word \<Rightarrow> IRGenerator \<Rightarrow> ast_out \<times> IRGenerator" where
  "ir_leaf_node_uint i g = (mk_out True [] (Some (newConstInt i)), g)"

definition ir_variable_declare :: "Type \<Rightarrow> string \<Rightarrow> IRGenerator \<Rightarrow> ast_out \<times> IRGenerator" where
  "ir_variable_declare ty nm g =
     (let (v, g1) = newVarValue ty (Some nm) g in (mk_out True [] (Some v), g1))"

text \<open>The loop of \<^verbatim>\<open>ir_declare_statment\<close>: \<open>result\<close> is the flag, which starts as false.\<close>

fun declare_loop :: "(Type \<times> string) list \<Rightarrow> bool \<Rightarrow> IRGenerator \<Rightarrow> bool \<times> IRGenerator" where
  "declare_loop [] result g = (result, g)"
| "declare_loop ((ty, nm) # rest) result g =
     (let (r, g1) = ir_variable_declare ty nm g
      in if \<not> ok r then (ok r, g1) else declare_loop rest (ok r) g1)"

definition ir_declare_statment :: "(Type \<times> string) list \<Rightarrow> IRGenerator \<Rightarrow> ast_out \<times> IRGenerator" where
  "ir_declare_statment ds g =
     (let (result, g1) = declare_loop ds False g in (mk_out result [] None, g1))"

definition ir_function_formal_params ::
    "(Type \<times> string) list \<Rightarrow> IRGenerator \<Rightarrow> ast_out \<times> IRGenerator" where
  "ir_function_formal_params ps g = (mk_out True [] None, g)"

definition ir_break :: "IRGenerator \<Rightarrow> ast_out \<times> IRGenerator" where
  "ir_break g =
     (if currentFunc g = None \<or> loop_contexts g = [] then
        (mk_out False [] None, minic_log BreakOutsideLoop g)
      else
        (mk_out True
           [GotoInstruction (Some (NamedLabel (loop_exit_label (hd (loop_contexts g)))))] None,
         g))"

definition ir_continue :: "IRGenerator \<Rightarrow> ast_out \<times> IRGenerator" where
  "ir_continue g =
     (if currentFunc g = None \<or> loop_contexts g = [] then
        (mk_out False [] None, minic_log ContinueOutsideLoop g)
      else
        (mk_out True
           [GotoInstruction (Some (NamedLabel (loop_entry_label (hd (loop_contexts g)))))] None,
         g))"

text \<open>\<^verbatim>\<open>(int32_t) paramsNode->sons.size()\<close>.\<close>

definition int32_of_size :: "nat \<Rightarrow> int" where
  "int32_of_size n = sint (word_of_nat n :: 32 word)"

text \<open>The two writes of \<^verbatim>\<open>ir_function_call\<close> to the current function, made once the callee
  is found and before any argument is visited.\<close>

definition noteFuncCall :: "string \<Rightarrow> nat \<Rightarrow> IRGenerator \<Rightarrow> IRGenerator" where
  "noteFuncCall cf n g =
     (let g1 = updFunc cf (\<lambda>F. F\<lparr>existFuncCall := True\<rparr>) g
      in if n \<noteq> 0 then
           updFunc cf (\<lambda>F. if int32_of_size n > maxFuncCallArgCnt F
                            then F\<lparr>maxFuncCallArgCnt := int32_of_size n\<rparr> else F) g1
         else g1)"

text \<open>The opcode of \<^verbatim>\<open>ir_add\<close>, \<^verbatim>\<open>ir_sub\<close>, \<^verbatim>\<open>ir_mul\<close>, \<^verbatim>\<open>ir_div\<close>, \<^verbatim>\<open>ir_mod\<close>, and of
  \<^verbatim>\<open>ir_eq\<close> ... \<^verbatim>\<open>ir_ge\<close>, which pass theirs to \<^verbatim>\<open>ir_relop\<close>.\<close>

fun arith_op :: "arith_tag \<Rightarrow> IRInstOperator" where
  "arith_op AST_OP_ADD = IRINST_OP_ADD_I"
| "arith_op AST_OP_SUB = IRINST_OP_SUB_I"
| "arith_op AST_OP_MUL = IRINST_OP_MUL_I"
| "arith_op AST_OP_DIV = IRINST_OP_DIV_I"
| "arith_op AST_OP_MOD = IRINST_OP_MOD_I"

fun rel_op :: "rel_tag \<Rightarrow> IRInstOperator" where
  "rel_op AST_OP_EQ = IRINST_OP_EQ_I"
| "rel_op AST_OP_NE = IRINST_OP_NE_I"
| "rel_op AST_OP_LT = IRINST_OP_LT_I"
| "rel_op AST_OP_LE = IRINST_OP_LE_I"
| "rel_op AST_OP_GT = IRINST_OP_GT_I"
| "rel_op AST_OP_GE = IRINST_OP_GE_I"

definition pushLoop :: "string \<Rightarrow> string \<Rightarrow> string \<Rightarrow> IRGenerator \<Rightarrow> IRGenerator" where
  "pushLoop e b x g =
     g\<lparr>loop_contexts :=
         \<lparr>loop_entry_label = e, loop_body_label = b, loop_exit_label = x\<rparr> # loop_contexts g\<rparr>"

definition popLoop :: "IRGenerator \<Rightarrow> IRGenerator" where
  "popLoop g = g\<lparr>loop_contexts := tl (loop_contexts g)\<rparr>"

subsection \<open>The traversal\<close>

text \<open>
  \<open>ir_visit_ast_node\<close> dispatches on the tag; each equation is the handler registered for
  the tag (the handler of the root, \<^verbatim>\<open>ir_compile_unit\<close>, follows it).  \<open>ir_visit_sons\<close> is
  the loop over children that \<^verbatim>\<open>ir_compile_unit\<close>, \<^verbatim>\<open>ir_block\<close> and \<^verbatim>\<open>ir_function_call\<close>
  each have: visit the children from left to right, stop with failure at the first child
  whose visit fails, and collect the instructions and values of the children visited
  before (\<^verbatim>\<open>ir_block\<close> uses the instructions, \<^verbatim>\<open>ir_function_call\<close> both, \<^verbatim>\<open>ir_compile_unit\<close>
  neither).  \<^verbatim>\<open>ir_function_define\<close> runs \<^verbatim>\<open>ir_block\<close> on its body after setting
  \<^verbatim>\<open>needScope\<close> to false, which is that loop alone.  It then moves the instructions of
  its node into the function's sequence (\<^verbatim>\<open>irCode.addInst(node->blockInsts)\<close>, which empties
  the block it is given), so a translated \<open>FUNC_DEF\<close> node keeps none.  A child's block is
  read once, when its parent takes it.  A handler that fails leaves on its
  node the instructions it had added before; the handlers that ignore the result of a
  visit (\<^verbatim>\<open>ir_if\<close>, \<^verbatim>\<open>ir_while\<close>, \<^verbatim>\<open>ir_and\<close>, \<^verbatim>\<open>ir_or\<close>) read them from the child.
\<close>

fun ir_visit_ast_node :: "ast_node \<Rightarrow> IRGenerator \<Rightarrow> (ast_out \<times> IRGenerator) option"
and ir_visit_sons :: "ast_node list \<Rightarrow> IRGenerator \<Rightarrow> (sons_out \<times> IRGenerator) option"
where
  "ir_visit_ast_node (AST_OP_LEAF_LITERAL_UINT i) g = Some (ir_leaf_node_uint i g)"
| "ir_visit_ast_node (AST_OP_LEAF_VAR_ID nm) g = Some (ir_leaf_node_var_id nm g)"
| "ir_visit_ast_node (AST_OP_LEAF_TYPE ty) g = Some (ir_leaf_node_type g)"
| "ir_visit_ast_node (AST_OP_OTHER t) g = Some (ir_default g)"
| "ir_visit_ast_node (AST_OP_VAR_DECL ty nm) g = Some (ir_variable_declare ty nm g)"
| "ir_visit_ast_node (AST_OP_DECL_STMT ds) g = Some (ir_declare_statment ds g)"
| "ir_visit_ast_node (AST_OP_FUNC_FORMAL_PARAMS ps) g = Some (ir_function_formal_params ps g)"
| "ir_visit_ast_node AST_OP_BREAK g = Some (ir_break g)"
| "ir_visit_ast_node AST_OP_CONTINUE g = Some (ir_continue g)"
| \<comment> \<open>\<^verbatim>\<open>ir_add\<close>, \<^verbatim>\<open>ir_sub\<close>, \<^verbatim>\<open>ir_mul\<close>, \<^verbatim>\<open>ir_div\<close>, \<^verbatim>\<open>ir_mod\<close>\<close>
  "ir_visit_ast_node (ARITH tag src1 src2) g =
     (case ir_visit_ast_node src1 g of
        None \<Rightarrow> None
      | Some (left, g1) \<Rightarrow>
          if \<not> ok left then Some (mk_out False [] None, g1)
          else (case ir_visit_ast_node src2 g1 of
                  None \<Rightarrow> None
                | Some (right, g2) \<Rightarrow>
                    if \<not> ok right then Some (mk_out False [] None, g2)
                    else
                      let inst = BinaryInstruction (arith_op tag) (val left) (val right)
                                   IntegerType_Int
                      in Some (mk_out True (blockInsts left @ blockInsts right @ [inst])
                                 (Some (InstValue inst)), g2)))"
| \<comment> \<open>\<^verbatim>\<open>ir_neg\<close>\<close>
  "ir_visit_ast_node (AST_OP_NEG src) g =
     (case ir_visit_ast_node src g of
        None \<Rightarrow> None
      | Some (operand, g1) \<Rightarrow>
          if \<not> ok operand then Some (mk_out False [] None, g1)
          else
            let inst = UnaryInstruction IRINST_OP_NEG_I (val operand) IntegerType_Int
            in Some (mk_out True (blockInsts operand @ [inst]) (Some (InstValue inst)), g1))"
| \<comment> \<open>\<^verbatim>\<open>ir_eq\<close> ... \<^verbatim>\<open>ir_ge\<close> through \<^verbatim>\<open>ir_relop\<close>: both children are visited before the check\<close>
  "ir_visit_ast_node (REL tag l r) g =
     (if currentFunc g = None then Some (mk_out False [] None, g)
      else
        (case ir_visit_ast_node l g of
           None \<Rightarrow> None
         | Some (left, g1) \<Rightarrow>
             (case ir_visit_ast_node r g1 of
                None \<Rightarrow> None
              | Some (right, g2) \<Rightarrow>
                  if \<not> ok left \<or> \<not> ok right then Some (mk_out False [] None, g2)
                  else
                    let cmpInst = BinaryInstruction (rel_op tag) (val left) (val right)
                                    IntegerType_Bool
                    in Some (mk_out True (blockInsts left @ blockInsts right @ [cmpInst])
                               (Some (InstValue cmpInst)), g2))))"
| \<comment> \<open>\<^verbatim>\<open>ir_and\<close>: the results of the two visits are not looked at\<close>
  "ir_visit_ast_node (AST_OP_AND l r) g =
     (if currentFunc g = None then Some (mk_out False [] None, g)
      else
        let (left_true_label, g1) = generateLabel g;
            (left_false_label, g2) = generateLabel g1;
            (end_label, g3) = generateLabel g2
        in (case ir_visit_ast_node l g3 of
              None \<Rightarrow> None
            | Some (left, g4) \<Rightarrow>
                let falseLabel = NamedLabel left_false_label;
                    trueLabel = NamedLabel left_true_label;
                    endLabel = NamedLabel end_label
                in (case ir_visit_ast_node r g4 of
                      None \<Rightarrow> None
                    | Some (right, g5) \<Rightarrow>
                        let (result, g6) = newVarValue IntegerType_Int None g5
                        in Some (mk_out True
                             (blockInsts left
                              @ [BranchInstruction IRINST_OP_BF (val left) falseLabel,
                                 Label trueLabel]
                              @ blockInsts right
                              @ [BranchInstruction IRINST_OP_BF (val right) falseLabel,
                                 Label trueLabel,
                                 MoveInstruction (Some result) (Some (ConstInt 1)),
                                 GotoInstruction (Some endLabel),
                                 Label falseLabel,
                                 MoveInstruction (Some result) (Some (ConstInt 0)),
                                 GotoInstruction (Some endLabel),
                                 Label (NamedLabel end_label)])
                             (Some result), g6))))"
| \<comment> \<open>\<^verbatim>\<open>ir_or\<close>\<close>
  "ir_visit_ast_node (AST_OP_OR l r) g =
     (if currentFunc g = None then Some (mk_out False [] None, g)
      else
        let (left_true_label, g1) = generateLabel g;
            (left_false_label, g2) = generateLabel g1;
            (end_label, g3) = generateLabel g2
        in (case ir_visit_ast_node l g3 of
              None \<Rightarrow> None
            | Some (left, g4) \<Rightarrow>
                let trueLabel = NamedLabel left_true_label;
                    falseLabel = NamedLabel left_false_label;
                    endLabel = NamedLabel end_label
                in (case ir_visit_ast_node r g4 of
                      None \<Rightarrow> None
                    | Some (right, g5) \<Rightarrow>
                        let (result, g6) = newVarValue IntegerType_Int None g5
                        in Some (mk_out True
                             (blockInsts left
                              @ [BranchInstruction IRINST_OP_BT (val left) trueLabel,
                                 Label falseLabel]
                              @ blockInsts right
                              @ [BranchInstruction IRINST_OP_BT (val right) trueLabel,
                                 Label trueLabel,
                                 MoveInstruction (Some result) (Some (ConstInt 1)),
                                 GotoInstruction (Some endLabel),
                                 Label (NamedLabel end_label),
                                 MoveInstruction (Some result) (Some (ConstInt 0))])
                             (Some result), g6))))"
| \<comment> \<open>\<^verbatim>\<open>ir_not\<close>: returns the operand's result and adds nothing to its own node\<close>
  "ir_visit_ast_node (AST_OP_NOT src) g =
     (if currentFunc g = None then Some (mk_out False [] None, g)
      else
        (case ir_visit_ast_node src g of
           None \<Rightarrow> None
         | Some (operand, g1) \<Rightarrow> Some (mk_out (ok operand) [] None, g1)))"
| \<comment> \<open>\<^verbatim>\<open>ir_assign\<close>: the left side is visited first, the right side's instructions go first\<close>
  "ir_visit_ast_node (AST_OP_ASSIGN son1 son2) g =
     (case ir_visit_ast_node son1 g of
        None \<Rightarrow> None
      | Some (left, g1) \<Rightarrow>
          if \<not> ok left then Some (mk_out False [] None, g1)
          else (case ir_visit_ast_node son2 g1 of
                  None \<Rightarrow> None
                | Some (right, g2) \<Rightarrow>
                    if \<not> ok right then Some (mk_out False [] None, g2)
                    else
                      let movInst = MoveInstruction (val left) (val right)
                      in Some (mk_out True (blockInsts right @ blockInsts left @ [movInst])
                                 (Some (InstValue movInst)), g2)))"
| \<comment> \<open>\<^verbatim>\<open>ir_return\<close> without an expression; it reads the exit label through \<^verbatim>\<open>currentFunc\<close>\<close>
  "ir_visit_ast_node (AST_OP_RETURN None) g =
     (case derefFunc (currentFunc g) g of
        None \<Rightarrow> None
      | Some F \<Rightarrow> Some (mk_out True [GotoInstruction (exitLabel F)] None, g))"
| \<comment> \<open>\<^verbatim>\<open>ir_return\<close> with an expression\<close>
  "ir_visit_ast_node (AST_OP_RETURN (Some son)) g =
     (case ir_visit_ast_node son g of
        None \<Rightarrow> None
      | Some (right, g1) \<Rightarrow>
          if \<not> ok right then Some (mk_out False [] None, g1)
          else (case derefFunc (currentFunc g1) g1 of
                  None \<Rightarrow> None
                | Some F \<Rightarrow>
                    Some (mk_out True
                            (blockInsts right
                             @ [MoveInstruction (returnValue F) (val right),
                                GotoInstruction (exitLabel F)])
                            (val right), g1)))"
| \<comment> \<open>\<^verbatim>\<open>ir_if\<close> with two children\<close>
  "ir_visit_ast_node (AST_OP_IF condNode thenNode None) g =
     (if currentFunc g = None then Some (mk_out False [] None, g)
      else
        let (true_label, g1) = generateLabel g;
            (false_label, g2) = generateLabel g1;
            (end_label, g3) = generateLabel g2
        in (case ir_visit_ast_node condNode g3 of
              None \<Rightarrow> None
            | Some (cond, g4) \<Rightarrow>
                (case ir_visit_ast_node thenNode g4 of
                   None \<Rightarrow> None
                 | Some (thenb, g5) \<Rightarrow>
                     Some (mk_out True
                             (blockInsts cond
                              @ [BranchInstruction IRINST_OP_BF (val cond) (NamedLabel false_label),
                                 Label (NamedLabel true_label)]
                              @ blockInsts thenb
                              @ [GotoInstruction (Some (NamedLabel end_label)),
                                 Label (NamedLabel false_label),
                                 GotoInstruction (Some (NamedLabel end_label)),
                                 Label (NamedLabel end_label)])
                             None, g5))))"
| \<comment> \<open>\<^verbatim>\<open>ir_if\<close> with an else branch\<close>
  "ir_visit_ast_node (AST_OP_IF condNode thenNode (Some elseNode)) g =
     (if currentFunc g = None then Some (mk_out False [] None, g)
      else
        let (true_label, g1) = generateLabel g;
            (false_label, g2) = generateLabel g1;
            (end_label, g3) = generateLabel g2
        in (case ir_visit_ast_node condNode g3 of
              None \<Rightarrow> None
            | Some (cond, g4) \<Rightarrow>
                (case ir_visit_ast_node thenNode g4 of
                   None \<Rightarrow> None
                 | Some (thenb, g5) \<Rightarrow>
                     (case ir_visit_ast_node elseNode g5 of
                        None \<Rightarrow> None
                      | Some (elseb, g6) \<Rightarrow>
                          Some (mk_out True
                                  (blockInsts cond
                                   @ [BranchInstruction IRINST_OP_BF (val cond)
                                        (NamedLabel false_label),
                                      Label (NamedLabel true_label)]
                                   @ blockInsts thenb
                                   @ [GotoInstruction (Some (NamedLabel end_label)),
                                      Label (NamedLabel false_label)]
                                   @ blockInsts elseb
                                   @ [GotoInstruction (Some (NamedLabel end_label)),
                                      Label (NamedLabel end_label)])
                                  None, g6)))))"
| \<comment> \<open>\<^verbatim>\<open>ir_while\<close>\<close>
  "ir_visit_ast_node (AST_OP_WHILE condNode bodyNode) g =
     (if currentFunc g = None then Some (mk_out False [] None, g)
      else
        let (entry_label, g1) = generateLabel g;
            (body_label, g2) = generateLabel g1;
            (exit_label, g3) = generateLabel g2;
            g4 = pushLoop entry_label body_label exit_label g3
        in (case ir_visit_ast_node condNode g4 of
              None \<Rightarrow> None
            | Some (cond, g5) \<Rightarrow>
                (case ir_visit_ast_node bodyNode g5 of
                   None \<Rightarrow> None
                 | Some (body, g6) \<Rightarrow>
                     Some (mk_out True
                             ([Label (NamedLabel entry_label)]
                              @ blockInsts cond
                              @ [BranchInstruction IRINST_OP_BT (val cond) (NamedLabel body_label),
                                 Label (NamedLabel exit_label),
                                 Label (NamedLabel body_label)]
                              @ blockInsts body
                              @ [GotoInstruction (Some (NamedLabel entry_label))])
                             None, popLoop g6))))"
| \<comment> \<open>\<^verbatim>\<open>ir_function_call\<close>: \<^verbatim>\<open>currentFunc\<close> is dereferenced once the callee is found\<close>
  "ir_visit_ast_node (AST_OP_FUNC_CALL funcName lineno args) g =
     (case findFunction funcName g of
        None \<Rightarrow> Some (mk_out False [] None, minic_log (FuncUndefined funcName) g)
      | Some calledFunction \<Rightarrow>
          (case currentFunc g of
             None \<Rightarrow> None
           | Some cf \<Rightarrow>
               (case ir_visit_sons args (noteFuncCall cf (length args) g) of
                  None \<Rightarrow> None
                | Some (realParams, g1) \<Rightarrow>
                    if \<not> sons_ok realParams then
                      Some (mk_out False (sons_insts realParams) None, g1)
                    else if length (sons_vals realParams) \<noteq> length (params calledFunction) then
                      Some (mk_out False (sons_insts realParams) None,
                            minic_log (FuncCallMismatch lineno funcName) g1)
                    else
                      let funcCallInst = FuncCallInstruction funcName (sons_vals realParams)
                                           (returnType calledFunction)
                      in Some (mk_out True (sons_insts realParams @ [funcCallInst])
                                 (Some (InstValue funcCallInst)), g1))))"
| \<comment> \<open>\<^verbatim>\<open>ir_function_define\<close>\<close>
  "ir_visit_ast_node (AST_OP_FUNC_DEF ty nm ps body) g =
     (if currentFunc g \<noteq> None then Some (mk_out False [] None, g)
      else
        (case newFunction nm ty g of
           None \<Rightarrow> Some (mk_out False [] None, g)
         | Some g1 \<Rightarrow>
             let g2 = enterScope (setCurrentFunction (Some nm) g1);
                 g3 = addInst nm [EntryInstruction] g2;
                 exitLabelInst = UnnamedLabel;
                 g4 = updFunc nm (\<lambda>F. F\<lparr>exitLabel := Some exitLabelInst\<rparr>) g3;
                 (param, g5) = ir_function_formal_params ps g4
             in if \<not> ok param then Some (mk_out False [] None, g5)
                else
                  let (retValue, g6) =
                        (if \<not> isVoidType ty
                         then (let (v, g') = newVarValue ty None g5 in (Some v, g'))
                         else (None, g5));
                      g7 = updFunc nm (\<lambda>F. F\<lparr>returnValue := retValue\<rparr>) g6
                  in (case ir_visit_sons body g7 of
                        None \<Rightarrow> None
                      | Some (block, g8) \<Rightarrow>
                          if \<not> sons_ok block then Some (mk_out False (blockInsts param) None, g8)
                          else
                            let insts = blockInsts param @ sons_insts block;
                                g9 = addInst nm insts g8;
                                g10 = addInst nm [Label exitLabelInst] g9;
                                g11 = addInst nm [ExitInstruction retValue] g10
                            in Some (mk_out True [] None,
                                     leaveScope (setCurrentFunction None g11)))))"
| \<comment> \<open>\<^verbatim>\<open>ir_block\<close>\<close>
  "ir_visit_ast_node (AST_OP_BLOCK needScope sons) g =
     (let g1 = (if needScope then enterScope g else g)
      in (case ir_visit_sons sons g1 of
            None \<Rightarrow> None
          | Some (stmts, g2) \<Rightarrow>
              if \<not> sons_ok stmts then Some (mk_out False (sons_insts stmts) None, g2)
              else Some (mk_out True (sons_insts stmts) None,
                         if needScope then leaveScope g2 else g2)))"
| "ir_visit_sons [] g = Some (\<lparr>sons_ok = True, sons_insts = [], sons_vals = []\<rparr>, g)"
| "ir_visit_sons (son # rest) g =
     (case ir_visit_ast_node son g of
        None \<Rightarrow> None
      | Some (temp, g1) \<Rightarrow>
          if \<not> ok temp then Some (\<lparr>sons_ok = False, sons_insts = [], sons_vals = []\<rparr>, g1)
          else (case ir_visit_sons rest g1 of
                  None \<Rightarrow> None
                | Some (others, g2) \<Rightarrow>
                    Some (\<lparr>sons_ok = sons_ok others,
                           sons_insts = blockInsts temp @ sons_insts others,
                           sons_vals = val temp # sons_vals others\<rparr>, g2)))"

fun ir_compile_unit :: "compile_unit \<Rightarrow> IRGenerator \<Rightarrow> (ast_out \<times> IRGenerator) option" where
  "ir_compile_unit (AST_OP_COMPILE_UNIT sons) g =
     (case ir_visit_sons sons (setCurrentFunction None g) of
        None \<Rightarrow> None
      | Some (items, g1) \<Rightarrow> Some (mk_out (sons_ok items) [] None, g1))"

text \<open>\<^verbatim>\<open>IRGenerator::run\<close>: visit the root; the result is whether the visit succeeded.\<close>

definition run :: "compile_unit \<Rightarrow> IRGenerator \<Rightarrow> (bool \<times> IRGenerator) option" where
  "run root g =
     (case ir_compile_unit root g of None \<Rightarrow> None | Some (node, g1) \<Rightarrow> Some (ok node, g1))"

subsection \<open>Notions used in the statements\<close>

text \<open>Modelled from the spec: the generator on a fresh module, before \<^verbatim>\<open>run\<close>: no function is
  registered, the global scope is the only frame of the scope stack, the current-function
  slot is null, the loop-context stack is empty and no label has been generated.\<close>

definition initial :: IRGenerator where
  "initial = \<lparr>funcs = Map.empty, scopeStack = [ []], currentFunc = None, varCount = 0,
               loop_contexts = [], labelCount = 0, errors = []\<rparr>"

text \<open>The linear instruction sequence of function \<open>nm\<close> after \<^verbatim>\<open>run\<close> on a fresh module
  has returned true.\<close>

definition translation :: "compile_unit \<Rightarrow> string \<Rightarrow> Instruction list option" where
  "translation root nm =
     (case run root initial of
        None \<Rightarrow> None
      | Some (b, g) \<Rightarrow> if b then map_option interCode (funcs g nm) else None)"

text \<open>The labels a sequence emits, the labels its branches and gotos name, and label
  uniqueness: no label is emitted twice and every target is emitted.\<close>

fun emitted_labels :: "Instruction list \<Rightarrow> LabelInstruction list" where
  "emitted_labels [] = []"
| "emitted_labels (Label l # rest) = l # emitted_labels rest"
| "emitted_labels (i # rest) = emitted_labels rest"

fun branch_targets :: "Instruction list \<Rightarrow> LabelInstruction list" where
  "branch_targets [] = []"
| "branch_targets (BranchInstruction opr c l # rest) = l # branch_targets rest"
| "branch_targets (GotoInstruction (Some l) # rest) = l # branch_targets rest"
| "branch_targets (i # rest) = branch_targets rest"

definition label_uniqueness :: "Instruction list \<Rightarrow> bool" where
  "label_uniqueness code \<longleftrightarrow>
     distinct (emitted_labels code) \<and> set (branch_targets code) \<subseteq> set (emitted_labels code)"

text \<open>While a function is translated, a handler changes of the registry only the two
  call-statistics fields of the current function, and they only grow: \<open>func_step\<close> relates
  the function before and after, \<open>inFunc cf\<close> the generator states, and \<open>keeps\<close> says
  that a handler returns and its final state is so related to a given earlier one.\<close>

definition func_step :: "Function \<Rightarrow> Function \<Rightarrow> bool" where
  "func_step F F' \<longleftrightarrow>
     returnType F' = returnType F \<and> params F' = params F \<and> interCode F' = interCode F \<and>
     exitLabel F' = exitLabel F \<and> returnValue F' = returnValue F \<and>
     (existFuncCall F \<longrightarrow> existFuncCall F') \<and>
     maxFuncCallArgCnt F \<le> maxFuncCallArgCnt F'"

definition inFunc :: "string \<Rightarrow> IRGenerator \<Rightarrow> IRGenerator \<Rightarrow> bool" where
  "inFunc cf g g' \<longleftrightarrow>
     currentFunc g = Some cf \<and> currentFunc g' = Some cf \<and>
     loop_contexts g' = loop_contexts g \<and>
     (\<forall>f. f \<noteq> cf \<longrightarrow> funcs g' f = funcs g f) \<and>
     (\<exists>F F'. funcs g cf = Some F \<and> funcs g' cf = Some F' \<and> func_step F F')"

definition keeps :: "string \<Rightarrow> IRGenerator \<Rightarrow> ('a \<times> IRGenerator) option \<Rightarrow> bool" where
  "keeps cf g0 x \<longleftrightarrow> (\<exists>r g'. x = Some (r, g') \<and> inFunc cf g0 g')"

text \<open>The combined effect of the two writes of \<open>noteFuncCall\<close> on the function.\<close>

definition callNoted :: "nat \<Rightarrow> Function \<Rightarrow> Function" where
  "callNoted n F =
     F\<lparr>existFuncCall := True,
       maxFuncCallArgCnt :=
         (if n \<noteq> 0 \<and> int32_of_size n > maxFuncCallArgCnt F then int32_of_size n
          else maxFuncCallArgCnt F)\<rparr>"

text \<open>The state in which \<^verbatim>\<open>ir_function_define\<close> visits the body: the function is
  registered and current, its scope is entered, \<open>Entry\<close> is emitted, the exit label is
  stored, and the return-value slot is allocated.  The first component is the slot.\<close>

definition funcProlog :: "Type \<Rightarrow> string \<Rightarrow> IRGenerator \<Rightarrow> Value option \<times> IRGenerator" where
  "funcProlog ty nm g1 =
     (let g4 = updFunc nm (\<lambda>F. F\<lparr>exitLabel := Some UnnamedLabel\<rparr>)
                 (addInst nm [EntryInstruction] (enterScope (setCurrentFunction (Some nm) g1)));
          r = (if \<not> isVoidType ty
               then (let (v, g') = newVarValue ty None g4 in (Some v, g'))
               else (None, g4))
      in (fst r, updFunc nm (\<lambda>F. F\<lparr>returnValue := fst r\<rparr>) (snd r)))"

text \<open>The state after the declarations \<open>ds\<close>, one \<open>newVarValue\<close> each, in order.\<close>

definition declared :: "(Type \<times> string) list \<Rightarrow> IRGenerator \<Rightarrow> IRGenerator" where
  "declared ds g = fold (\<lambda>(ty, nm) h. snd (newVarValue ty (Some nm) h)) ds g"

text \<open>A node has an exposed empty declaration statement when a \<open>DECL_STMT\<close> without
  children occurs in it at a position that is not beneath an \<open>IF\<close>, \<open>WHILE\<close>, \<open>AND\<close> or
  \<open>OR\<close> node, the four whose handlers do not look at the result of visiting a child.\<close>

fun empty_decl_exposed :: "ast_node \<Rightarrow> bool" where
  "empty_decl_exposed (AST_OP_DECL_STMT ds) = (ds = [])"
| "empty_decl_exposed (ARITH tag l r) = (empty_decl_exposed l \<or> empty_decl_exposed r)"
| "empty_decl_exposed (AST_OP_NEG s) = empty_decl_exposed s"
| "empty_decl_exposed (REL tag l r) = (empty_decl_exposed l \<or> empty_decl_exposed r)"
| "empty_decl_exposed (AST_OP_NOT s) = empty_decl_exposed s"
| "empty_decl_exposed (AST_OP_ASSIGN l r) = (empty_decl_exposed l \<or> empty_decl_exposed r)"
| "empty_decl_exposed (AST_OP_RETURN (Some s)) = empty_decl_exposed s"
| "empty_decl_exposed (AST_OP_FUNC_CALL nm line args) = (\<exists>a \<in> set args. empty_decl_exposed a)"
| "empty_decl_exposed (AST_OP_FUNC_DEF ty nm ps body) = (\<exists>s \<in> set body. empty_decl_exposed s)"
| "empty_decl_exposed (AST_OP_BLOCK ns sons) = (\<exists>s \<in> set sons. empty_decl_exposed s)"
| "empty_decl_exposed n = False"

subsection \<open>Example programs\<close>

text \<open>\<^verbatim>\<open>int main() { return 1 && 2; }\<close>\<close>

definition and_unit :: compile_unit where
  "and_unit = AST_OP_COMPILE_UNIT [AST_OP_FUNC_DEF IntegerType_Int ''main'' []
     [AST_OP_RETURN (Some (AST_OP_AND (AST_OP_LEAF_LITERAL_UINT 1)
                                        (AST_OP_LEAF_LITERAL_UINT 2)))]]"

text \<open>\<^verbatim>\<open>int main() { if (1) break; }\<close>\<close>

definition if_break_unit :: compile_unit where
  "if_break_unit = AST_OP_COMPILE_UNIT [AST_OP_FUNC_DEF IntegerType_Int ''main'' []
     [AST_OP_IF (AST_OP_LEAF_LITERAL_UINT 1) AST_OP_BREAK None]]"

text \<open>\<^verbatim>\<open>int main() { while (1) g(); }\<close>, where no function \<^verbatim>\<open>g\<close> is defined\<close>

definition while_call_unit :: compile_unit where
  "while_call_unit = AST_OP_COMPILE_UNIT [AST_OP_FUNC_DEF IntegerType_Int ''main'' []
     [AST_OP_WHILE (AST_OP_LEAF_LITERAL_UINT 1) (AST_OP_FUNC_CALL ''g'' 1 [])]]"

text \<open>\<^verbatim>\<open>int main() { break; }\<close>\<close>

definition break_unit :: compile_unit where
  "break_unit = AST_OP_COMPILE_UNIT [AST_OP_FUNC_DEF IntegerType_Int ''main'' [] [AST_OP_BREAK]]"

text \<open>\<^verbatim>\<open>int main() { if (1) { break; } }\<close>\<close>

definition if_block_unit :: compile_unit where
  "if_block_unit = AST_OP_COMPILE_UNIT [AST_OP_FUNC_DEF IntegerType_Int ''main'' []
     [AST_OP_IF (AST_OP_LEAF_LITERAL_UINT 1) (AST_OP_BLOCK True [AST_OP_BREAK]) None]]"

text \<open>\<^verbatim>\<open>int id(int x) { return x; }\<close>\<close>

definition id_def :: ast_node where
  "id_def = AST_OP_FUNC_DEF IntegerType_Int ''id'' [(IntegerType_Int, ''x'')]
     [AST_OP_RETURN (Some (AST_OP_LEAF_VAR_ID ''x''))]"

definition id_unit :: compile_unit where
  "id_unit = AST_OP_COMPILE_UNIT [id_def]"

text \<open>\<^verbatim>\<open>int id(int x) { return x; } int main() { return id(1); }\<close>, the call on line 2\<close>

definition id_call_unit :: compile_unit where
  "id_call_unit = AST_OP_COMPILE_UNIT
     [id_def,
      AST_OP_FUNC_DEF IntegerType_Int ''main'' []
        [AST_OP_RETURN (Some (AST_OP_FUNC_CALL ''id'' 2 [AST_OP_LEAF_LITERAL_UINT 1]))]]"

text \<open>A function \<^verbatim>\<open>main\<close> whose body is a declaration statement without children; the same
  statement in the block of \<^verbatim>\<open>if (1) { ... }\<close>; and in the block of \<^verbatim>\<open>while (1) { ... }\<close>\<close>

definition decl_body_unit :: compile_unit where
  "decl_body_unit = AST_OP_COMPILE_UNIT
     [AST_OP_FUNC_DEF IntegerType_Int ''main'' [] [AST_OP_DECL_STMT []]]"

definition decl_if_unit :: compile_unit where
  "decl_if_unit = AST_OP_COMPILE_UNIT
     [AST_OP_FUNC_DEF IntegerType_Int ''main'' []
        [AST_OP_IF (AST_OP_LEAF_LITERAL_UINT 1) (AST_OP_BLOCK True [AST_OP_DECL_STMT []]) None]]"

definition decl_while_unit :: compile_unit where
  "decl_while_unit = AST_OP_COMPILE_UNIT
     [AST_OP_FUNC_DEF IntegerType_Int ''main'' []
        [AST_OP_WHILE (AST_OP_LEAF_LITERAL_UINT 1) (AST_OP_BLOCK True [AST_OP_DECL_STMT []])]]"

text \<open>\<^verbatim>\<open>int main() { return 0; }\<close>\<close>

definition return0_def :: ast_node where
  "return0_def = AST_OP_FUNC_DEF IntegerType_Int ''main'' []
     [AST_OP_RETURN (Some (AST_OP_LEAF_LITERAL_UINT 0))]"

text \<open>\<^verbatim>\<open>int f() { } int main() { return f(g()); }\<close>, where no function \<^verbatim>\<open>g\<close> is defined, and
  the call in it\<close>

definition nested_call :: ast_node where
  "nested_call = AST_OP_FUNC_CALL ''f'' 7 [AST_OP_FUNC_CALL ''g'' 7 []]"

definition nested_call_unit :: compile_unit where
  "nested_call_unit = AST_OP_COMPILE_UNIT
     [AST_OP_FUNC_DEF IntegerType_Int ''f'' [] [],
      AST_OP_FUNC_DEF IntegerType_Int ''main'' [] [AST_OP_RETURN (Some nested_call)]]"

text \<open>The state in which the statements of \<^verbatim>\<open>main\<close> are visited in
  \<^verbatim>\<open>int f() { } int main() { int x; ... }\<close>: \<^verbatim>\<open>f\<close> is translated, \<^verbatim>\<open>main\<close> is the current
  function and \<^verbatim>\<open>x\<close> is declared in its scope.\<close>

definition f_fun :: Function where
  "f_fun = \<lparr>returnType = IntegerType_Int, params = [],
            interCode = [EntryInstruction, Label UnnamedLabel,
                         ExitInstruction (Some (LocalVariable IntegerType_Int [] 0))],
            exitLabel = Some UnnamedLabel,
            returnValue = Some (LocalVariable IntegerType_Int [] 0),
            existFuncCall = False, maxFuncCallArgCnt = 0\<rparr>"

definition main_fun :: Function where
  "main_fun = \<lparr>returnType = IntegerType_Int, params = [], interCode = [EntryInstruction],
               exitLabel = Some UnnamedLabel,
               returnValue = Some (LocalVariable IntegerType_Int [] 1),
               existFuncCall = False, maxFuncCallArgCnt = 0\<rparr>"

definition in_main :: IRGenerator where
  "in_main = \<lparr>funcs = [''f'' \<mapsto> f_fun, ''main'' \<mapsto> main_fun],
              scopeStack = [ [(''x'', LocalVariable IntegerType_Int ''x'' 2)], []],
              currentFunc = Some ''main'', varCount = 3, loop_contexts = [], labelCount = 0,
              errors = []\<rparr>"

text \<open>\<^verbatim>\<open>x = 1 + 2\<close>, \<^verbatim>\<open>while (x < 10) break;\<close>, \<^verbatim>\<open>f(1)\<close> and \<^verbatim>\<open>f()\<close>\<close>

definition assign_example :: ast_node where
  "assign_example = AST_OP_ASSIGN (AST_OP_LEAF_VAR_ID ''x'')
     (ARITH AST_OP_ADD (AST_OP_LEAF_LITERAL_UINT 1) (AST_OP_LEAF_LITERAL_UINT 2))"

definition while_example :: ast_node where
  "while_example = AST_OP_WHILE
     (REL AST_OP_LT (AST_OP_LEAF_VAR_ID ''x'') (AST_OP_LEAF_LITERAL_UINT 10)) AST_OP_BREAK"

section \<open>Properties\<close>

subsection \<open>Handlers inside a function\<close>

lemma func_step_refl: "func_step F F"
  by (simp add: func_step_def)

lemma func_step_trans: "func_step F G \<Longrightarrow> func_step G H \<Longrightarrow> func_step F H"
  by (auto simp: func_step_def)

lemma inFunc_refl: "currentFunc g = Some cf \<Longrightarrow> funcs g cf = Some F \<Longrightarrow> inFunc cf g g"
  by (auto simp: inFunc_def func_step_refl)

lemma inFunc_trans: "inFunc cf g g1 \<Longrightarrow> inFunc cf g1 g2 \<Longrightarrow> inFunc cf g g2"
  unfolding inFunc_def by (auto intro: func_step_trans)

lemma inFunc_generateLabel: "inFunc cf g0 g \<Longrightarrow> inFunc cf g0 (snd (generateLabel g))"
  by (simp add: inFunc_def generateLabel_def)

lemma inFunc_newVarValue: "inFunc cf g0 g \<Longrightarrow> inFunc cf g0 (snd (newVarValue ty nm g))"
  by (simp add: inFunc_def newVarValue_def Let_def)

lemma inFunc_minic_log: "inFunc cf g0 g \<Longrightarrow> inFunc cf g0 (minic_log m g)"
  by (simp add: inFunc_def minic_log_def)

lemma inFunc_enterScope: "inFunc cf g0 g \<Longrightarrow> inFunc cf g0 (enterScope g)"
  by (simp add: inFunc_def enterScope_def)

lemma inFunc_leaveScope: "inFunc cf g0 g \<Longrightarrow> inFunc cf g0 (leaveScope g)"
  by (simp add: inFunc_def leaveScope_def)

lemma noteFuncCall_eq:
  "noteFuncCall cf n g = g\<lparr>funcs := (funcs g)(cf := map_option (callNoted n) (funcs g cf))\<rparr>"
proof (cases "funcs g cf")
  case None
  then show ?thesis by (simp add: noteFuncCall_def updFunc_def Let_def)
next
  case (Some F)
  then show ?thesis by (simp add: noteFuncCall_def updFunc_def Let_def callNoted_def)
qed

lemma func_step_callNoted: "func_step F (callNoted n F)"
  by (simp add: func_step_def callNoted_def)

lemma inFunc_noteFuncCall: "inFunc cf g0 g \<Longrightarrow> inFunc cf g0 (noteFuncCall cf n g)"
  unfolding inFunc_def noteFuncCall_eq
  by (auto dest: func_step_trans[OF _ func_step_callNoted])

lemma inFunc_popLoop:
  "inFunc cf g0 g \<Longrightarrow> inFunc cf (pushLoop e b x g) g' \<Longrightarrow> inFunc cf g0 (popLoop g')"
  unfolding inFunc_def pushLoop_def popLoop_def
  by (auto intro: func_step_trans)

lemma inFunc_pushLoop: "inFunc cf g0 g \<Longrightarrow> inFunc cf (pushLoop e b x g) (pushLoop e b x g)"
  unfolding inFunc_def pushLoop_def by (auto simp: func_step_refl)

lemma keeps_Some: "inFunc cf g0 (snd p) \<Longrightarrow> keeps cf g0 (Some p)"
  by (cases p) (simp add: keeps_def)

lemma keeps_bind:
  "keeps cf g0 x \<Longrightarrow> (\<And>r g'. inFunc cf g0 g' \<Longrightarrow> keeps cf g0 (k (r, g')))
   \<Longrightarrow> keeps cf g0 (case x of None \<Rightarrow> None | Some p \<Rightarrow> k p)"
  by (auto simp: keeps_def)

lemma keeps_if:
  "(c \<Longrightarrow> keeps cf g0 a) \<Longrightarrow> (\<not> c \<Longrightarrow> keeps cf g0 b) \<Longrightarrow> keeps cf g0 (if c then a else b)"
  by simp

lemma inFunc_declare_loop: "inFunc cf g0 g \<Longrightarrow> inFunc cf g0 (snd (declare_loop ds b g))"
  by (induction ds b g rule: declare_loop.induct)
     (simp_all add: ir_variable_declare_def split_def Let_def inFunc_newVarValue)

lemma inFunc_leaf:
  "inFunc cf g0 g \<Longrightarrow> inFunc cf g0 (snd (ir_leaf_node_uint i g))"
  "inFunc cf g0 g \<Longrightarrow> inFunc cf g0 (snd (ir_leaf_node_var_id nm g))"
  "inFunc cf g0 g \<Longrightarrow> inFunc cf g0 (snd (ir_leaf_node_type g))"
  "inFunc cf g0 g \<Longrightarrow> inFunc cf g0 (snd (ir_default g))"
  "inFunc cf g0 g \<Longrightarrow> inFunc cf g0 (snd (ir_variable_declare ty nm g))"
  "inFunc cf g0 g \<Longrightarrow> inFunc cf g0 (snd (ir_declare_statment ds g))"
  "inFunc cf g0 g \<Longrightarrow> inFunc cf g0 (snd (ir_function_formal_params ps g))"
  "inFunc cf g0 g \<Longrightarrow> inFunc cf g0 (snd (ir_break g))"
  "inFunc cf g0 g \<Longrightarrow> inFunc cf g0 (snd (ir_continue g))"
  by (simp_all add: ir_leaf_node_uint_def ir_leaf_node_var_id_def ir_leaf_node_type_def
      ir_default_def ir_variable_declare_def ir_declare_statment_def
      ir_function_formal_params_def ir_break_def ir_continue_def split_def Let_def
      inFunc_newVarValue inFunc_declare_loop inFunc_minic_log)

lemma inFunc_current: "inFunc cf g0 g \<Longrightarrow> currentFunc g = Some cf"
  by (simp add: inFunc_def)

lemma inFunc_deref: "inFunc cf g0 g \<Longrightarrow> \<exists>F. derefFunc (currentFunc g) g = Some F"
  by (auto simp: inFunc_def derefFunc_def)

lemma inFunc_self: "inFunc cf g0 g \<Longrightarrow> inFunc cf g g"
  by (auto simp: inFunc_def func_step_refl)

lemma keeps_case_option:
  "(x = None \<Longrightarrow> keeps cf g0 a) \<Longrightarrow> (\<And>y. x = Some y \<Longrightarrow> keeps cf g0 (b y))
   \<Longrightarrow> keeps cf g0 (case x of None \<Rightarrow> a | Some y \<Rightarrow> b y)"
  by (cases x) simp_all

lemma sons_keeps:
  assumes "\<And>n g0 g. n \<in> set ns \<Longrightarrow> inFunc cf g0 g \<Longrightarrow> keeps cf g0 (ir_visit_ast_node n g)"
  shows "inFunc cf g0 g \<Longrightarrow> keeps cf g0 (ir_visit_sons ns g)"
  using assms
proof (induction ns arbitrary: g)
  case Nil
  then show ?case by (simp add: keeps_def)
next
  case (Cons n ns)
  have 1: "\<And>g. inFunc cf g0 g \<Longrightarrow> keeps cf g0 (ir_visit_ast_node n g)"
    using Cons.prems(2) by simp
  have 2: "\<And>g1. inFunc cf g0 g1 \<Longrightarrow> keeps cf g0 (ir_visit_sons ns g1)"
    using Cons.IH Cons.prems(2) by simp
  show ?case
    apply (simp only: ir_visit_sons.simps Let_def split_def)
    apply (intro keeps_bind keeps_if keeps_Some 1 2 Cons.prems(1); simp)
    done
qed

lemmas inFunc_prims = inFunc_generateLabel inFunc_newVarValue inFunc_minic_log inFunc_enterScope
  inFunc_leaveScope inFunc_noteFuncCall inFunc_leaf

lemma visit_keeps: "inFunc cf g0 g \<Longrightarrow> keeps cf g0 (ir_visit_ast_node n g)"
proof (induction n arbitrary: g0 g)
  case (ARITH tag l r)
  show ?case
    apply (simp only: ir_visit_ast_node.simps Let_def split_def)
    apply (intro keeps_bind keeps_if keeps_Some ARITH; simp add: ARITH.prems)
    done
next
  case (AST_OP_NEG n)
  show ?case
    apply (simp only: ir_visit_ast_node.simps Let_def split_def)
    apply (intro keeps_bind keeps_if keeps_Some AST_OP_NEG; simp add: AST_OP_NEG.prems)
    done
next
  case (REL tag l r)
  show ?case
    apply (simp only: ir_visit_ast_node.simps Let_def split_def)
    apply (intro keeps_bind keeps_if keeps_Some REL; simp add: REL.prems)
    done
next
  case (AST_OP_AND l r)
  show ?case
    apply (simp only: ir_visit_ast_node.simps Let_def split_def)
    apply (intro keeps_bind keeps_if keeps_Some AST_OP_AND inFunc_prims; simp add: inFunc_prims AST_OP_AND.prems)
    done
next
  case (AST_OP_OR l r)
  show ?case
    apply (simp only: ir_visit_ast_node.simps Let_def split_def)
    apply (intro keeps_bind keeps_if keeps_Some AST_OP_OR inFunc_prims; simp add: inFunc_prims AST_OP_OR.prems)
    done
next
  case (AST_OP_NOT n)
  show ?case
    apply (simp only: ir_visit_ast_node.simps Let_def split_def)
    apply (intro keeps_bind keeps_if keeps_Some AST_OP_NOT; simp add: AST_OP_NOT.prems)
    done
next
  case (AST_OP_ASSIGN l r)
  show ?case
    apply (simp only: ir_visit_ast_node.simps Let_def split_def)
    apply (intro keeps_bind keeps_if keeps_Some AST_OP_ASSIGN; simp add: AST_OP_ASSIGN.prems)
    done
next
  case (AST_OP_RETURN x)
  show ?case
  proof (cases x)
    case None
    obtain F where "derefFunc (currentFunc g) g = Some F"
      using inFunc_deref[OF AST_OP_RETURN.prems] by blast
    then show ?thesis
      using None AST_OP_RETURN.prems by (simp add: keeps_def)
  next
    case (Some son)
    have d: "\<And>g'. inFunc cf g0 g' \<Longrightarrow> \<exists>F. derefFunc (currentFunc g') g' = Some F"
      by (rule inFunc_deref)
    have ih: "\<And>g0 g. inFunc cf g0 g \<Longrightarrow> keeps cf g0 (ir_visit_ast_node son g)"
      using AST_OP_RETURN.IH Some by simp
    show ?thesis
      unfolding Some
      apply (simp only: ir_visit_ast_node.simps Let_def split_def)
      apply (intro keeps_bind keeps_if keeps_Some ih AST_OP_RETURN.prems; simp?)
      subgoal for r g' using d[of g'] by (auto simp: keeps_def)
      done
  qed
next
  case (AST_OP_IF c t e)
  show ?case
  proof (cases e)
    case None
    show ?thesis
      unfolding None
      apply (simp only: ir_visit_ast_node.simps Let_def split_def)
      apply (intro keeps_bind keeps_if keeps_Some AST_OP_IF.IH(1,2) inFunc_prims; simp add: inFunc_prims AST_OP_IF.prems)
      done
  next
    case (Some el)
    have ih: "\<And>g0 g. inFunc cf g0 g \<Longrightarrow> keeps cf g0 (ir_visit_ast_node el g)"
      using AST_OP_IF.IH(3) Some by simp
    show ?thesis
      unfolding Some
      apply (simp only: ir_visit_ast_node.simps Let_def split_def)
      apply (intro keeps_bind keeps_if keeps_Some AST_OP_IF.IH(1,2) ih inFunc_prims; simp add: inFunc_prims AST_OP_IF.prems)
      done
  qed
next
  case (AST_OP_WHILE c b)
  let ?g1 = "snd (generateLabel g)"
  let ?g2 = "snd (generateLabel ?g1)"
  let ?g3 = "snd (generateLabel ?g2)"
  let ?P = "pushLoop (fst (generateLabel g)) (fst (generateLabel ?g1)) (fst (generateLabel ?g2)) ?g3"
  have cur: "currentFunc g = Some cf"
    using AST_OP_WHILE.prems by (rule inFunc_current)
  have g3: "inFunc cf g0 ?g3"
    by (intro inFunc_generateLabel AST_OP_WHILE.prems)
  obtain rc g5 where c: "ir_visit_ast_node c ?P = Some (rc, g5)" "inFunc cf ?P g5"
    using AST_OP_WHILE.IH(1)[OF inFunc_pushLoop[OF g3]] unfolding keeps_def by blast
  obtain rb g6 where b: "ir_visit_ast_node b g5 = Some (rb, g6)" "inFunc cf ?P g6"
    using AST_OP_WHILE.IH(2)[OF c(2)] unfolding keeps_def by blast
  have "inFunc cf g0 (popLoop g6)"
    by (rule inFunc_popLoop[OF g3 b(2)])
  then show ?case
    by (simp add: keeps_def Let_def split_def c b cur)
next
  case (AST_OP_FUNC_CALL nm line args)
  have cur: "currentFunc g = Some cf"
    using AST_OP_FUNC_CALL.prems by (rule inFunc_current)
  have sons: "\<And>g1. inFunc cf g0 g1 \<Longrightarrow> keeps cf g0 (ir_visit_sons args g1)"
    by (rule sons_keeps) (use AST_OP_FUNC_CALL.IH in simp_all)
  show ?case
    apply (simp only: ir_visit_ast_node.simps Let_def split_def cur option.case)
    apply (intro keeps_case_option keeps_bind keeps_if keeps_Some sons inFunc_prims AST_OP_FUNC_CALL.prems; simp add: inFunc_prims AST_OP_FUNC_CALL.prems)
    done
next
  case (AST_OP_FUNC_DEF ty nm ps body)
  then show ?case
    by (simp add: inFunc_current[OF AST_OP_FUNC_DEF.prems] keeps_def)
next
  case (AST_OP_BLOCK ns sons)
  have sons: "\<And>g1. inFunc cf g0 g1 \<Longrightarrow> keeps cf g0 (ir_visit_sons sons g1)"
    by (rule sons_keeps) (use AST_OP_BLOCK.IH in simp_all)
  show ?case
    apply (simp only: ir_visit_ast_node.simps Let_def split_def)
    apply (intro keeps_bind keeps_if keeps_Some sons inFunc_prims AST_OP_BLOCK.prems; simp add: inFunc_prims AST_OP_BLOCK.prems)
    done
qed (simp_all add: keeps_Some inFunc_prims)

subsection \<open>Function definitions and calls\<close>

lemma func_def_unfold:
  "ir_visit_ast_node (AST_OP_FUNC_DEF ty nm ps body) g =
     (if currentFunc g \<noteq> None then Some (mk_out False [] None, g)
      else (case newFunction nm ty g of
              None \<Rightarrow> Some (mk_out False [] None, g)
            | Some g1 \<Rightarrow>
               (case ir_visit_sons body (snd (funcProlog ty nm g1)) of
                  None \<Rightarrow> None
                | Some (block, g8) \<Rightarrow>
                    if \<not> sons_ok block then Some (mk_out False [] None, g8)
                    else Some (mk_out True [] None,
                       leaveScope (setCurrentFunction None
                         (addInst nm [ExitInstruction (fst (funcProlog ty nm g1))]
                           (addInst nm [Label UnnamedLabel]
                             (addInst nm (sons_insts block) g8))))))))"
  by (simp add: funcProlog_def Let_def split_def ir_function_formal_params_def mk_out_def
      cong: option.case_cong if_cong)

lemma funcProlog_fields:
  assumes "newFunction nm ty g = Some g1"
  shows "currentFunc (snd (funcProlog ty nm g1)) = Some nm"
    and "funcs (snd (funcProlog ty nm g1)) nm =
           Some \<lparr>returnType = ty, params = [], interCode = [EntryInstruction],
                 exitLabel = Some UnnamedLabel, returnValue = fst (funcProlog ty nm g1),
                 existFuncCall = False, maxFuncCallArgCnt = 0\<rparr>"
    and "scopeStack (snd (funcProlog ty nm g1)) = [] # scopeStack g"
    and "fst (funcProlog ty nm g1) =
           (if isVoidType ty then None else Some (LocalVariable ty [] (varCount g)))"
    and "funcs g nm = None"
proof -
  have g1: "g1 = g\<lparr>funcs := (funcs g)(nm \<mapsto>
          \<lparr>returnType = ty, params = [], interCode = [], exitLabel = None,
           returnValue = None, existFuncCall = False, maxFuncCallArgCnt = 0\<rparr>)\<rparr>"
    and none: "funcs g nm = None"
    using assms by (auto simp: newFunction_def split: option.splits)
  show "currentFunc (snd (funcProlog ty nm g1)) = Some nm"
    by (simp add: funcProlog_def Let_def split_def enterScope_def
        setCurrentFunction_def addInst_def updFunc_def newVarValue_def)
  show "funcs (snd (funcProlog ty nm g1)) nm =
           Some \<lparr>returnType = ty, params = [], interCode = [EntryInstruction],
                 exitLabel = Some UnnamedLabel, returnValue = fst (funcProlog ty nm g1),
                 existFuncCall = False, maxFuncCallArgCnt = 0\<rparr>"
    by (simp add: g1 funcProlog_def Let_def split_def enterScope_def
        setCurrentFunction_def addInst_def updFunc_def newVarValue_def)
  show "scopeStack (snd (funcProlog ty nm g1)) = [] # scopeStack g"
    by (simp add: g1 funcProlog_def Let_def split_def enterScope_def
        setCurrentFunction_def addInst_def updFunc_def newVarValue_def bindValue_def)
  show "fst (funcProlog ty nm g1) =
           (if isVoidType ty then None else Some (LocalVariable ty [] (varCount g)))"
    by (simp add: g1 funcProlog_def Let_def split_def enterScope_def
        setCurrentFunction_def addInst_def updFunc_def newVarValue_def)
  show "funcs g nm = None"
    by (rule none)
qed

lemma sons_vals_length:
  "ir_visit_sons ns g = Some (rs, g') \<Longrightarrow> sons_ok rs \<Longrightarrow> length (sons_vals rs) = length ns"
  by (induction ns arbitrary: g rs g') (auto split: option.splits if_splits)

lemma sons_in_function:
  "inFunc cf g0 g \<Longrightarrow> keeps cf g0 (ir_visit_sons ns g)"
  by (rule sons_keeps) (rule visit_keeps)

lemma func_def_success:
  assumes "ir_visit_ast_node (AST_OP_FUNC_DEF ty nm ps body) g = Some (node, g')" and "ok node"
  shows "\<exists>g1 block g8 F.
           currentFunc g = None \<and> newFunction nm ty g = Some g1 \<and>
           ir_visit_sons body (snd (funcProlog ty nm g1)) = Some (block, g8) \<and> sons_ok block \<and>
           blockInsts node = [] \<and>
           funcs g' nm = Some F \<and>
           interCode F = EntryInstruction # sons_insts block
                           @ [Label UnnamedLabel, ExitInstruction (returnValue F)] \<and>
           exitLabel F = Some UnnamedLabel \<and>
           (isVoidType ty \<longrightarrow> returnValue F = None) \<and>
           (\<not> isVoidType ty \<longrightarrow>
              returnValue F = Some (LocalVariable ty [] (varCount g))) \<and>
           params F = [] \<and> currentFunc g' = None"
proof -
  note eq = assms(1)[unfolded func_def_unfold]
  have cur: "currentFunc g = None"
    using eq assms(2) by (auto simp: mk_out_def split: if_splits)
  obtain g1 where nf: "newFunction nm ty g = Some g1"
    using eq assms(2) cur by (auto simp: mk_out_def split: option.splits)
  let ?g7 = "snd (funcProlog ty nm g1)"
  obtain block g8 where b: "ir_visit_sons body ?g7 = Some (block, g8)" "sons_ok block"
    and n: "node = mk_out True [] None"
    and g': "g' = leaveScope (setCurrentFunction None
                         (addInst nm [ExitInstruction (fst (funcProlog ty nm g1))]
                           (addInst nm [Label UnnamedLabel]
                             (addInst nm (sons_insts block) g8))))"
    using eq assms(2) cur nf by (auto simp: mk_out_def split: option.splits if_splits)
  note pf = funcProlog_fields[OF nf]
  have "inFunc nm ?g7 ?g7"
    using pf(1,2) by (rule inFunc_refl)
  then have "keeps nm ?g7 (ir_visit_sons body ?g7)"
    by (rule sons_in_function)
  then have "inFunc nm ?g7 g8"
    using b(1) by (simp add: keeps_def)
  then obtain F8 where F8: "funcs g8 nm = Some F8"
    and st: "func_step \<lparr>returnType = ty, params = [], interCode = [EntryInstruction],
                 exitLabel = Some UnnamedLabel, returnValue = fst (funcProlog ty nm g1),
                 existFuncCall = False, maxFuncCallArgCnt = 0\<rparr> F8"
    using pf(2) by (auto simp: inFunc_def)
  let ?F = "F8\<lparr>interCode := interCode F8 @ sons_insts block @ [Label UnnamedLabel]
                  @ [ExitInstruction (fst (funcProlog ty nm g1))]\<rparr>"
  have "funcs g' nm = Some ?F"
    using F8 by (simp add: g' leaveScope_def setCurrentFunction_def addInst_def updFunc_def)
  moreover have "currentFunc g' = None"
    by (simp add: g' leaveScope_def setCurrentFunction_def addInst_def updFunc_def)
  ultimately show ?thesis
    using cur nf b n st pf(4) by (simp add: func_step_def mk_out_def)
qed


lemma call_unfold:
  assumes "currentFunc g = Some cf" and "findFunction funcName g = Some callee"
    and "ir_visit_sons args (noteFuncCall cf (length args) g) = Some (realParams, g1)"
  shows "ir_visit_ast_node (AST_OP_FUNC_CALL funcName lineno args) g =
     (if \<not> sons_ok realParams then Some (mk_out False (sons_insts realParams) None, g1)
      else if length args \<noteq> length (params callee) then
        Some (mk_out False (sons_insts realParams) None,
              minic_log (FuncCallMismatch lineno funcName) g1)
      else Some (mk_out True
                   (sons_insts realParams
                    @ [FuncCallInstruction funcName (sons_vals realParams) (returnType callee)])
                   (Some (InstValue (FuncCallInstruction funcName (sons_vals realParams)
                                       (returnType callee)))), g1))"
  using assms sons_vals_length[OF assms(3)] by (simp add: Let_def)

lemma call_sons:
  assumes "currentFunc g = Some cf" and "funcs g cf = Some F"
  shows "\<exists>realParams g1 F1.
           ir_visit_sons args (noteFuncCall cf (length args) g) = Some (realParams, g1) \<and>
           funcs g1 cf = Some F1 \<and> func_step (callNoted (length args) F) F1 \<and>
           currentFunc g1 = Some cf"
proof -
  let ?N = "noteFuncCall cf (length args) g"
  have "inFunc cf g g"
    using assms by (rule inFunc_refl)
  then have "inFunc cf g ?N"
    by (rule inFunc_noteFuncCall)
  then have N: "inFunc cf ?N ?N"
    by (rule inFunc_self)
  have fN: "funcs ?N cf = Some (callNoted (length args) F)"
    using assms(2) by (simp add: noteFuncCall_eq)
  from sons_in_function[OF N] obtain realParams g1
    where s: "ir_visit_sons args ?N = Some (realParams, g1)" "inFunc cf ?N g1"
    unfolding keeps_def by blast
  from s(2) fN obtain F1 where "funcs g1 cf = Some F1" "func_step (callNoted (length args) F) F1"
    "currentFunc g1 = Some cf"
    by (auto simp: inFunc_def)
  with s(1) show ?thesis by blast
qed

subsection \<open>Declarations and failure of a child\<close>

lemma declare_loop_eq:
  "declare_loop ds b g = ((if ds = [] then b else True), declared ds g)"
proof (induction ds arbitrary: b g)
  case Nil
  then show ?case by (simp add: declared_def)
next
  case (Cons d ds)
  obtain ty nm where d: "d = (ty, nm)" by (cases d)
  show ?case
    by (simp add: d Cons.IH ir_variable_declare_def split_def mk_out_def Let_def declared_def)
qed

lemma ir_declare_statment_eq:
  "ir_declare_statment ds g = (mk_out (ds \<noteq> []) [] None, declared ds g)"
  by (simp add: ir_declare_statment_def declare_loop_eq)

lemma sons_never_ok:
  assumes "n \<in> set ns" and "\<And>g r g'. ir_visit_ast_node n g = Some (r, g') \<Longrightarrow> \<not> ok r"
  shows "ir_visit_sons ns g = Some (rs, g') \<Longrightarrow> \<not> sons_ok rs"
  using assms(1)
proof (induction ns arbitrary: g rs g')
  case Nil
  then show ?case by simp
next
  case (Cons m ns)
  show ?case
  proof (cases "ir_visit_ast_node m g")
    case None
    then show ?thesis using Cons.prems by simp
  next
    case (Some p)
    obtain r g1 where p: "p = (r, g1)" by (cases p)
    show ?thesis
    proof (cases "ok r")
      case False
      then show ?thesis using Cons.prems Some p by auto
    next
      case True
      then have "m \<noteq> n" using assms(2) Some p by blast
      then have "n \<in> set ns" using Cons.prems(2) by simp
      then show ?thesis
        using Cons.IH Cons.prems(1) Some p True by (auto split: option.splits)
    qed
  qed
qed

lemma func_def_never_ok:
  assumes "n \<in> set body" and "\<And>g r g'. ir_visit_ast_node n g = Some (r, g') \<Longrightarrow> \<not> ok r"
  shows "ir_visit_ast_node (AST_OP_FUNC_DEF ty nm ps body) g = Some (r, g') \<Longrightarrow> \<not> ok r"
  unfolding func_def_unfold
  using sons_never_ok[OF assms]
  by (auto simp: mk_out_def split: option.splits if_splits)

lemma run_never_true:
  assumes "n \<in> set items" and "\<And>g r g'. ir_visit_ast_node n g = Some (r, g') \<Longrightarrow> \<not> ok r"
  shows "run (AST_OP_COMPILE_UNIT items) g \<noteq> Some (True, g')"
  using sons_never_ok[OF assms]
  by (auto simp: run_def mk_out_def split: option.splits)

lemma declared_Nil: "declared [] g = g"
  by (simp add: declared_def)

lemma declared_Cons:
  "declared ((ty, nm) # ds) g = declared ds (snd (newVarValue ty (Some nm) g))"
  by (simp add: declared_def)

lemma newVarValue_scope:
  "scopeStack g \<noteq> [] \<Longrightarrow> scopeStack (snd (newVarValue ty nm g)) \<noteq> []"
  by (cases "scopeStack g"; cases nm) (simp_all add: newVarValue_def bindValue_def Let_def)

lemma declared_scope:
  "scopeStack g \<noteq> [] \<Longrightarrow> scopeStack (declared ds g) \<noteq> []"
proof (induction ds arbitrary: g)
  case Nil
  then show ?case by (simp add: declared_Nil)
next
  case (Cons d ds)
  obtain ty nm where d: "d = (ty, nm)" by (cases d)
  show ?case
    unfolding d declared_Cons
    by (rule Cons.IH) (rule newVarValue_scope[OF Cons.prems])
qed

lemma declared_varCount: "varCount g \<le> varCount (declared ds g)"
proof (induction ds arbitrary: g)
  case Nil
  then show ?case by (simp add: declared_def)
next
  case (Cons d ds)
  obtain ty nm where d: "d = (ty, nm)" by (cases d)
  have "varCount (snd (newVarValue ty (Some nm) g)) \<le>
        varCount (declared ds (snd (newVarValue ty (Some nm) g)))"
    by (rule Cons.IH)
  moreover have "varCount g \<le> varCount (snd (newVarValue ty (Some nm) g))"
    by (simp add: newVarValue_def Let_def)
  ultimately show ?case
    unfolding d declared_Cons by (rule order_trans[rotated])
qed

lemma declared_snoc:
  "declared (ds @ [(ty, nm)]) g = snd (newVarValue ty (Some nm) (declared ds g))"
  by (simp add: declared_def)

lemma findVarValue_new:
  "scopeStack h \<noteq> [] \<Longrightarrow>
   findVarValue n (snd (newVarValue ty (Some nm) h)) =
     (if n = nm then Some (LocalVariable ty nm (varCount h)) else findVarValue n h)"
  by (cases "scopeStack h") (simp_all add: findVarValue_def newVarValue_def bindValue_def Let_def)

lemma declared_bound:
  "scopeStack g \<noteq> [] \<Longrightarrow> (ty, nm) \<in> set ds \<Longrightarrow>
   \<exists>ty' k. findVarValue nm (declared ds g) = Some (LocalVariable ty' nm k) \<and> varCount g \<le> k"
proof (induction ds rule: rev_induct)
  case Nil
  then show ?case by simp
next
  case (snoc d ds)
  obtain t n where d: "d = (t, n)" by (cases d)
  have sc: "scopeStack (declared ds g) \<noteq> []"
    using snoc.prems(1) by (rule declared_scope)
  show ?case
  proof (cases "nm = n")
    case True
    then show ?thesis
      using declared_varCount[of g ds] by (simp add: d declared_snoc findVarValue_new[OF sc])
  next
    case False
    then have "(ty, nm) \<in> set ds" using snoc.prems(2) d by auto
    then show ?thesis
      using snoc.IH snoc.prems(1) False by (simp add: d declared_snoc findVarValue_new[OF sc])
  qed
qed

lemma decl_bound:
  assumes "scopeStack g \<noteq> []" and "(ty, nm) \<in> set ds"
  shows "\<exists>ty' k. findVarValue nm (snd (ir_declare_statment ds g)) = Some (LocalVariable ty' nm k)
           \<and> varCount g \<le> k"
  using declared_bound[OF assms] by (simp add: ir_declare_statment_eq)

lemma call_never_ok:
  assumes "n \<in> set args" and "\<And>g r g'. ir_visit_ast_node n g = Some (r, g') \<Longrightarrow> \<not> ok r"
  shows "ir_visit_ast_node (AST_OP_FUNC_CALL nm line args) g = Some (r, g') \<Longrightarrow> \<not> ok r"
  using sons_never_ok[OF assms]
  by (auto simp: mk_out_def Let_def split: option.splits if_splits)

lemma block_never_ok:
  assumes "n \<in> set sons" and "\<And>g r g'. ir_visit_ast_node n g = Some (r, g') \<Longrightarrow> \<not> ok r"
  shows "ir_visit_ast_node (AST_OP_BLOCK ns sons) g = Some (r, g') \<Longrightarrow> \<not> ok r"
  using sons_never_ok[OF assms]
  by (auto simp: mk_out_def Let_def split: option.splits if_splits)

lemma exposed_never_ok:
  "empty_decl_exposed n \<Longrightarrow> ir_visit_ast_node n g = Some (r, g') \<Longrightarrow> \<not> ok r"
proof (induction n arbitrary: g r g')
  case (AST_OP_DECL_STMT ds)
  then show ?case by (auto simp: ir_declare_statment_eq mk_out_def)
next
  case (ARITH tag l r')
  then show ?case
    by (auto simp: mk_out_def Let_def split: option.splits if_splits)
next
  case (AST_OP_NEG s)
  then show ?case
    by (auto simp: mk_out_def Let_def split: option.splits if_splits)
next
  case (REL tag l r')
  then show ?case
    by (auto simp: mk_out_def Let_def split: option.splits if_splits)
next
  case (AST_OP_NOT s)
  then show ?case
    by (auto simp: mk_out_def Let_def split: option.splits if_splits)
next
  case (AST_OP_ASSIGN l r')
  then show ?case
    by (auto simp: mk_out_def Let_def split: option.splits if_splits)
next
  case (AST_OP_RETURN x)
  then obtain s where x: "x = Some s" and e: "empty_decl_exposed s"
    by (cases x) auto
  have "\<And>g r g'. ir_visit_ast_node s g = Some (r, g') \<Longrightarrow> \<not> ok r"
    using AST_OP_RETURN.IH x e by simp
  then show ?case
    using AST_OP_RETURN.prems(2) unfolding x
    by (auto simp: mk_out_def Let_def split: option.splits if_splits)
next
  case (AST_OP_FUNC_CALL nm line args)
  then obtain a where a: "a \<in> set args" "empty_decl_exposed a" by auto
  have "\<And>g r g'. ir_visit_ast_node a g = Some (r, g') \<Longrightarrow> \<not> ok r"
    using AST_OP_FUNC_CALL.IH a by blast
  with a(1) show ?case
    using AST_OP_FUNC_CALL.prems(2) by (rule call_never_ok)
next
  case (AST_OP_FUNC_DEF ty nm ps body)
  then obtain a where a: "a \<in> set body" "empty_decl_exposed a" by auto
  have "\<And>g r g'. ir_visit_ast_node a g = Some (r, g') \<Longrightarrow> \<not> ok r"
    using AST_OP_FUNC_DEF.IH a by blast
  with a(1) show ?case
    using AST_OP_FUNC_DEF.prems(2) by (rule func_def_never_ok)
next
  case (AST_OP_BLOCK ns sons)
  then obtain a where a: "a \<in> set sons" "empty_decl_exposed a" by auto
  have "\<And>g r g'. ir_visit_ast_node a g = Some (r, g') \<Longrightarrow> \<not> ok r"
    using AST_OP_BLOCK.IH a by blast
  with a(1) show ?case
    using AST_OP_BLOCK.prems(2) by (rule block_never_ok)
qed simp_all

lemma exposed_run_never_true:
  assumes "n \<in> set items" and "empty_decl_exposed n"
  shows "run (AST_OP_COMPILE_UNIT items) g \<noteq> Some (True, g')"
  using assms(1) exposed_never_ok[OF assms(2)] by (rule run_never_true)

subsection \<open>Evaluation of the examples\<close>

lemmas eval_defs = run_def translation_def initial_def generateLabel_def newVarValue_def
  pushLoop_def popLoop_def minic_log_def enterScope_def leaveScope_def setCurrentFunction_def
  updFunc_def addInst_def noteFuncCall_def newFunction_def ir_break_def ir_continue_def
  ir_default_def ir_leaf_node_type_def ir_leaf_node_var_id_def ir_leaf_node_uint_def
  ir_variable_declare_def ir_declare_statment_def ir_function_formal_params_def mk_out_def
  findFunction_def derefFunc_def findVarValue_def newConstInt_def bindValue_def isVoidType_def
  Let_def to_string.simps digit_char_def int32_of_size_def

section \<open>The claims\<close>

text \<open>
  C1 (label uniqueness).  The claim asks that in every function produced by a successful
  translation each label is emitted exactly once.  The handler of \<open>&&\<close> adds its true
  label to the node twice: for \<^verbatim>\<open>int main() { return 1 && 2; }\<close> the translation succeeds
  and the sequence of \<^verbatim>\<open>main\<close> holds the instruction \<open>Label L0\<close> two times, so it does not
  have label uniqueness.
\<close>

theorem and_label_emitted_twice:
  "map_option (\<lambda>code. count_list code (Label (NamedLabel ''L0''))) (translation and_unit ''main'')
     = Some 2 \<and>
   map_option label_uniqueness (translation and_unit ''main'') = Some False"
  by (simp add: and_unit_def eval_defs label_uniqueness_def)

text \<open>
  C2 (propagation of failure).  The claim asks that a failing handler makes every ancestor
  fail, in particular \<open>IF\<close> and \<open>WHILE\<close> when a child fails.  \<^verbatim>\<open>ir_if\<close> and \<^verbatim>\<open>ir_while\<close> do
  not look at the result of visiting their children: for \<^verbatim>\<open>int main() { if (1) break; }\<close>
  the handler of \<open>break\<close> fails (it reports the break outside a loop) and for
  \<^verbatim>\<open>int main() { while (1) g(); }\<close> the handler of the call fails (it reports the undefined
  function), yet the handlers of \<open>IF\<close> and \<open>WHILE\<close> succeed and \<open>run\<close> returns true
  on both.
\<close>

theorem failure_ignored_by_if_and_while:
  "map_option (\<lambda>(node, g). ok node) (ir_visit_ast_node AST_OP_BREAK in_main) = Some False \<and>
   map_option (\<lambda>(node, g). ok node)
     (ir_visit_ast_node (AST_OP_IF (AST_OP_LEAF_LITERAL_UINT 1) AST_OP_BREAK None) in_main)
     = Some True \<and>
   map_option (\<lambda>(node, g). ok node)
     (ir_visit_ast_node (AST_OP_FUNC_CALL ''g'' 1 []) in_main) = Some False \<and>
   map_option (\<lambda>(node, g). ok node)
     (ir_visit_ast_node
        (AST_OP_WHILE (AST_OP_LEAF_LITERAL_UINT 1) (AST_OP_FUNC_CALL ''g'' 1 [])) in_main)
     = Some True \<and>
   map_option (\<lambda>(b, g). (b, errors g)) (run if_break_unit initial)
     = Some (True, [BreakOutsideLoop]) \<and>
   map_option (\<lambda>(b, g). (b, errors g)) (run while_call_unit initial)
     = Some (True, [FuncUndefined ''g''])"
  by (simp add: if_break_unit_def while_call_unit_def in_main_def eval_defs)

text \<open>
  C3 (formal parameters).  The claim asks that for each formal the formal-parameter handler
  creates a formal-parameter value, binds the name to a matching local and emits a Move
  from the formal into the local, ahead of the body.  The handler does nothing and
  returns true, under a comment that describes the claimed steps as still to be done.  For
  the formal \<^verbatim>\<open>int x\<close> its block stays empty and \<^verbatim>\<open>x\<close> stays unbound; after
  \<^verbatim>\<open>int id(int x) { return x; }\<close> the function \<^verbatim>\<open>id\<close> has no formal parameter and its
  sequence has no Move from a formal, the Move of the return statement reading the null
  value that the unbound \<^verbatim>\<open>x\<close> leaves; and the call \<^verbatim>\<open>id(1)\<close> in \<^verbatim>\<open>main\<close> fails the arity
  check of \<^verbatim>\<open>ir_function_call\<close>, which compares the one argument with the empty parameter
  list, so \<open>run\<close> returns false on a program that passes an argument to a function with
  one formal.
\<close>

theorem formal_params_not_translated:
  "blockInsts (fst (ir_function_formal_params [(IntegerType_Int, ''x'')] (enterScope initial))) = []
   \<and> findVarValue ''x''
        (snd (ir_function_formal_params [(IntegerType_Int, ''x'')] (enterScope initial))) = None
   \<and> translation id_unit ''id'' =
        Some [EntryInstruction,
              MoveInstruction (Some (LocalVariable IntegerType_Int [] 0)) None,
              GotoInstruction (Some UnnamedLabel),
              Label UnnamedLabel,
              ExitInstruction (Some (LocalVariable IntegerType_Int [] 0))]
   \<and> map_option (\<lambda>(b, g). map_option params (funcs g ''id'')) (run id_unit initial)
        = Some (Some [])
   \<and> map_option (\<lambda>(b, g). (b, errors g)) (run id_call_unit initial)
        = Some (False, [FuncCallMismatch 2 ''id''])"
  by (simp add: id_unit_def id_call_unit_def id_def_def eval_defs)

text \<open>
  C4 (scope hygiene).  The claim asks that after \<open>run\<close>, whether it returns true or false,
  the scope stack is the one from before and the current-function slot is null.  On the
  paths that return false \<^verbatim>\<open>ir_function_define\<close> and \<^verbatim>\<open>ir_block\<close> return before they
  restore either: after \<^verbatim>\<open>int main() { break; }\<close> \<open>run\<close> has returned false, \<^verbatim>\<open>main\<close> is
  still the current function and its scope is still on the stack.  After
  \<^verbatim>\<open>int main() { if (1) { break; } }\<close> \<open>run\<close> has returned true and the stack still holds
  one scope more than before.
\<close>

theorem failed_run_leaves_scope_and_function:
  "scopeStack initial = [ []] \<and> currentFunc initial = None \<and>
   map_option (\<lambda>(b, g). (b, currentFunc g, scopeStack g)) (run break_unit initial)
     = Some (False, Some ''main'', [ [], []]) \<and>
   map_option (\<lambda>(b, g). (b, currentFunc g, scopeStack g)) (run if_block_unit initial)
     = Some (True, None, [ [], []])"
  by (simp add: break_unit_def if_block_unit_def eval_defs)

text \<open>
  C5 (shape of a function).  For every function definition translated successfully, the
  function's instruction sequence begins with \<open>Entry\<close> and ends with the exit label (the
  label stored on the function) immediately followed by \<open>Exit\<close>, after which nothing
  follows.  \<open>Exit\<close> refers to the return-value slot of the function, which is a local
  variable of the return type when that is not void and null when it is void.
\<close>

theorem ir_function_define_entry_exit:
  assumes "ir_visit_ast_node (AST_OP_FUNC_DEF ty nm ps body) g = Some (node, g')"
    and "ok node"
  shows "\<exists>F mid.
           funcs g' nm = Some F \<and>
           interCode F = EntryInstruction # mid
                           @ [Label UnnamedLabel, ExitInstruction (returnValue F)] \<and>
           exitLabel F = Some UnnamedLabel \<and>
           (isVoidType ty \<longrightarrow> returnValue F = None) \<and>
           (\<not> isVoidType ty \<longrightarrow> (\<exists>k. returnValue F = Some (LocalVariable ty [] k)))"
proof -
  obtain block :: sons_out and F where
    "funcs g' nm = Some F"
    "interCode F = EntryInstruction # sons_insts block
                     @ [Label UnnamedLabel, ExitInstruction (returnValue F)]"
    "exitLabel F = Some UnnamedLabel"
    "isVoidType ty \<longrightarrow> returnValue F = None"
    "\<not> isVoidType ty \<longrightarrow> returnValue F = Some (LocalVariable ty [] (varCount g))"
    using func_def_success[OF assms] by blast
  then show ?thesis
    by blast
qed

theorem ir_function_define_entry_exit_witness:
  "\<exists>node g' F mid.
     ir_visit_ast_node return0_def initial = Some (node, g') \<and> ok node \<and>
     funcs g' ''main'' = Some F \<and>
     interCode F = EntryInstruction # mid
                     @ [Label UnnamedLabel, ExitInstruction (returnValue F)] \<and>
     exitLabel F = Some UnnamedLabel \<and>
     (\<exists>k. returnValue F = Some (LocalVariable IntegerType_Int [] k))"
proof -
  have "\<exists>node g'. ir_visit_ast_node return0_def initial = Some (node, g') \<and> ok node"
    by (simp add: return0_def_def eval_defs)
  then obtain node g' where h:
    "ir_visit_ast_node (AST_OP_FUNC_DEF IntegerType_Int ''main'' []
        [AST_OP_RETURN (Some (AST_OP_LEAF_LITERAL_UINT 0))]) initial = Some (node, g')"
    "ok node"
    unfolding return0_def_def by blast
  have v: "\<not> isVoidType IntegerType_Int"
    by (simp add: isVoidType_def)
  from ir_function_define_entry_exit[OF h] v h show ?thesis
    unfolding return0_def_def by blast
qed

text \<open>
  C6 (function call), as the claim states it: once the callee is found, a call whose
  argument count differs from the callee's formal count would fail with the
  arity-mismatch error.  In \<^verbatim>\<open>f(g())\<close>, with \<^verbatim>\<open>f\<close> defined without formals and \<^verbatim>\<open>g\<close>
  undefined, the callee \<^verbatim>\<open>f\<close> is found and the one argument differs from its zero formals,
  but visiting the argument fails first: the handler fails with the argument's error alone
  and reports no arity mismatch.
\<close>

theorem call_argument_failure_counterexample:
  "findFunction ''f'' in_main = Some f_fun \<and>
   length [AST_OP_FUNC_CALL ''g'' 7 []] \<noteq> length (params f_fun) \<and>
   map_option fst (ir_visit_ast_node nested_call in_main) = Some (mk_out False [] None) \<and>
   map_option (errors \<circ> snd) (ir_visit_ast_node nested_call in_main)
     = Some [FuncUndefined ''g''] \<and>
   map_option fst (run nested_call_unit initial) = Some False \<and>
   map_option (errors \<circ> snd) (run nested_call_unit initial) = Some [FuncUndefined ''g'']"
  by (simp add: nested_call_unit_def nested_call_def in_main_def f_fun_def main_fun_def eval_defs)

text \<open>
  C6, amended: for every call translated inside a function, if the named callee is not
  registered the handler fails and reports the undefined function.  Otherwise the
  arguments are visited from left to right, after the call is noted on the current
  function; if the visit of an argument fails, the handler fails there and reports
  nothing of its own.  Otherwise, if the argument count differs from the callee's formal
  count, the handler fails and reports the mismatch with the line of the name.  Otherwise
  it appends exactly one call instruction, with the arguments' values in order, to the
  arguments' instructions, and that instruction is the value of the node.
\<close>

theorem ir_function_call_cases:
  assumes "currentFunc g = Some cf" and "funcs g cf = Some F"
  shows "(findFunction funcName g = None \<longrightarrow>
            ir_visit_ast_node (AST_OP_FUNC_CALL funcName lineno args) g =
              Some (mk_out False [] None, minic_log (FuncUndefined funcName) g)) \<and>
         (\<forall>callee. findFunction funcName g = Some callee \<longrightarrow>
            (\<exists>realParams g1.
               ir_visit_sons args (noteFuncCall cf (length args) g) = Some (realParams, g1) \<and>
               (\<not> sons_ok realParams \<longrightarrow>
                  ir_visit_ast_node (AST_OP_FUNC_CALL funcName lineno args) g =
                    Some (mk_out False (sons_insts realParams) None, g1)) \<and>
               (sons_ok realParams \<and> length args \<noteq> length (params callee) \<longrightarrow>
                  ir_visit_ast_node (AST_OP_FUNC_CALL funcName lineno args) g =
                    Some (mk_out False (sons_insts realParams) None,
                          minic_log (FuncCallMismatch lineno funcName) g1)) \<and>
               (sons_ok realParams \<and> length args = length (params callee) \<longrightarrow>
                  length (sons_vals realParams) = length args \<and>
                  ir_visit_ast_node (AST_OP_FUNC_CALL funcName lineno args) g =
                    Some (mk_out True
                            (sons_insts realParams
                             @ [FuncCallInstruction funcName (sons_vals realParams)
                                  (returnType callee)])
                            (Some (InstValue (FuncCallInstruction funcName
                                     (sons_vals realParams) (returnType callee)))), g1))))"
proof (intro conjI impI allI)
  assume "findFunction funcName g = None"
  then show "ir_visit_ast_node (AST_OP_FUNC_CALL funcName lineno args) g =
              Some (mk_out False [] None, minic_log (FuncUndefined funcName) g)"
    by simp
next
  fix callee
  assume c: "findFunction funcName g = Some callee"
  obtain realParams g1
    where s: "ir_visit_sons args (noteFuncCall cf (length args) g) = Some (realParams, g1)"
    using call_sons[OF assms(1,2)] by blast
  note u = call_unfold[OF assms(1) c s, of lineno]
  show "\<exists>realParams g1.
               ir_visit_sons args (noteFuncCall cf (length args) g) = Some (realParams, g1) \<and>
               (\<not> sons_ok realParams \<longrightarrow>
                  ir_visit_ast_node (AST_OP_FUNC_CALL funcName lineno args) g =
                    Some (mk_out False (sons_insts realParams) None, g1)) \<and>
               (sons_ok realParams \<and> length args \<noteq> length (params callee) \<longrightarrow>
                  ir_visit_ast_node (AST_OP_FUNC_CALL funcName lineno args) g =
                    Some (mk_out False (sons_insts realParams) None,
                          minic_log (FuncCallMismatch lineno funcName) g1)) \<and>
               (sons_ok realParams \<and> length args = length (params callee) \<longrightarrow>
                  length (sons_vals realParams) = length args \<and>
                  ir_visit_ast_node (AST_OP_FUNC_CALL funcName lineno args) g =
                    Some (mk_out True
                            (sons_insts realParams
                             @ [FuncCallInstruction funcName (sons_vals realParams)
                                  (returnType callee)])
                            (Some (InstValue (FuncCallInstruction funcName
                                     (sons_vals realParams) (returnType callee)))), g1))"
    apply (rule exI[of _ realParams], rule exI[of _ g1])
    apply (simp only: u s)
    using sons_vals_length[OF s]
    apply simp
    done
qed

theorem ir_function_call_cases_witness:
  "currentFunc in_main = Some ''main'' \<and> funcs in_main ''main'' = Some main_fun \<and>
   findFunction ''g'' in_main = None \<and>
   map_option (\<lambda>(node, g). (ok node, blockInsts node, errors g))
     (ir_visit_ast_node (AST_OP_FUNC_CALL ''g'' 7 []) in_main)
     = Some (False, [], [FuncUndefined ''g'']) \<and>
   findFunction ''f'' in_main = Some f_fun \<and>
   map_option (\<lambda>(node, g). (ok node, blockInsts node, errors g))
     (ir_visit_ast_node (AST_OP_FUNC_CALL ''f'' 7 [AST_OP_LEAF_LITERAL_UINT 1]) in_main)
     = Some (False, [], [FuncCallMismatch 7 ''f'']) \<and>
   map_option (\<lambda>(node, g). (ok node, blockInsts node, val node, errors g))
     (ir_visit_ast_node (AST_OP_FUNC_CALL ''f'' 7 []) in_main)
     = Some (True, [FuncCallInstruction ''f'' [] IntegerType_Int],
             Some (InstValue (FuncCallInstruction ''f'' [] IntegerType_Int)), [])"
proof -
  have h: "currentFunc in_main = Some ''main''" "funcs in_main ''main'' = Some main_fun"
    by (simp_all add: in_main_def)
  show ?thesis
    using h ir_function_call_cases[OF h, of "''f''" 7 "[]"]
    by (simp add: in_main_def f_fun_def main_fun_def eval_defs)
qed

text \<open>
  C7 (while).  For every \<open>WHILE\<close> node translated inside a function the handler returns,
  and what it leaves on the node is, in order: the entry label, the condition's
  instructions, a \<open>BT\<close> on the condition's value to the body label, the exit label, the
  body label, the body's instructions and a goto to the entry label.  The three labels
  are the next three of the counter.  The body is visited in a state whose loop-context
  stack has the triple of entry, body and exit label on top of the stack from before, and
  after the handler the stack is the one from before.
\<close>

theorem ir_while_sequence:
  assumes "currentFunc g = Some cf" and "funcs g cf = Some F"
  shows "\<exists>cond g5 body g6.
           ir_visit_ast_node condNode
             (pushLoop (''L'' @ to_string (labelCount g)) (''L'' @ to_string (labelCount g + 1))
                (''L'' @ to_string (labelCount g + 2)) (g\<lparr>labelCount := labelCount g + 3\<rparr>))
             = Some (cond, g5) \<and>
           loop_contexts g5 =
             \<lparr>loop_entry_label = ''L'' @ to_string (labelCount g),
              loop_body_label = ''L'' @ to_string (labelCount g + 1),
              loop_exit_label = ''L'' @ to_string (labelCount g + 2)\<rparr> # loop_contexts g \<and>
           ir_visit_ast_node bodyNode g5 = Some (body, g6) \<and>
           ir_visit_ast_node (AST_OP_WHILE condNode bodyNode) g =
             Some (mk_out True
                     ([Label (NamedLabel (''L'' @ to_string (labelCount g)))]
                      @ blockInsts cond
                      @ [BranchInstruction IRINST_OP_BT (val cond)
                           (NamedLabel (''L'' @ to_string (labelCount g + 1))),
                         Label (NamedLabel (''L'' @ to_string (labelCount g + 2))),
                         Label (NamedLabel (''L'' @ to_string (labelCount g + 1)))]
                      @ blockInsts body
                      @ [GotoInstruction (Some (NamedLabel (''L'' @ to_string (labelCount g))))])
                     None, popLoop g6) \<and>
           loop_contexts (popLoop g6) = loop_contexts g"
proof -
  let ?P = "pushLoop (''L'' @ to_string (labelCount g)) (''L'' @ to_string (labelCount g + 1))
                (''L'' @ to_string (labelCount g + 2)) (g\<lparr>labelCount := labelCount g + 3\<rparr>)"
  have P: "inFunc cf ?P ?P"
    using assms by (auto simp: inFunc_def pushLoop_def func_step_refl)
  obtain cond g5 where c: "ir_visit_ast_node condNode ?P = Some (cond, g5)" "inFunc cf ?P g5"
    using visit_keeps[OF P] unfolding keeps_def by blast
  obtain body g6 where b: "ir_visit_ast_node bodyNode g5 = Some (body, g6)" "inFunc cf ?P g6"
    using visit_keeps[OF c(2)] unfolding keeps_def by blast
  have l5: "loop_contexts g5 = loop_contexts ?P" and l6: "loop_contexts g6 = loop_contexts ?P"
    using c(2) b(2) by (simp_all add: inFunc_def)
  have g3: "snd (generateLabel (snd (generateLabel (snd (generateLabel g)))))
              = g\<lparr>labelCount := labelCount g + 3\<rparr>"
    by (simp add: generateLabel_def)
  show ?thesis
    apply (rule exI[of _ cond], rule exI[of _ g5], rule exI[of _ body], rule exI[of _ g6])
    using c(1) b(1) l5 l6 assms(1)
    apply (simp add: split_def Let_def g3)
    apply (simp add: generateLabel_def pushLoop_def popLoop_def)
    done
qed

theorem ir_while_sequence_witness:
  "currentFunc in_main = Some ''main'' \<and> funcs in_main ''main'' = Some main_fun \<and>
   map_option (\<lambda>(node, g). (ok node, blockInsts node, loop_contexts g))
     (ir_visit_ast_node while_example in_main)
   = Some (True,
       [Label (NamedLabel ''L0''),
        BinaryInstruction IRINST_OP_LT_I (Some (LocalVariable IntegerType_Int ''x'' 2))
          (Some (ConstInt 10)) IntegerType_Bool,
        BranchInstruction IRINST_OP_BT
          (Some (InstValue (BinaryInstruction IRINST_OP_LT_I
             (Some (LocalVariable IntegerType_Int ''x'' 2)) (Some (ConstInt 10))
             IntegerType_Bool)))
          (NamedLabel ''L1''),
        Label (NamedLabel ''L2''),
        Label (NamedLabel ''L1''),
        GotoInstruction (Some (NamedLabel ''L2'')),
        GotoInstruction (Some (NamedLabel ''L0''))],
       [])"
proof -
  have h: "currentFunc in_main = Some ''main''" "funcs in_main ''main'' = Some main_fun"
    by (simp_all add: in_main_def)
  show ?thesis
    using h ir_while_sequence[OF h, of "REL AST_OP_LT (AST_OP_LEAF_VAR_ID ''x'')
      (AST_OP_LEAF_LITERAL_UINT 10)" AST_OP_BREAK]
    by (simp add: while_example_def in_main_def main_fun_def eval_defs)
qed

text \<open>
  C8 (assignment).  For every \<open>ASSIGN\<close> node translated successfully, both sides were
  translated successfully, the left one first, and the node's instructions are all
  instructions of the right-hand side, then all of the left-hand side, then one Move from
  the right value to the left value as the last instruction; that Move is the value of
  the node.
\<close>

theorem ir_assign_order:
  assumes "ir_visit_ast_node (AST_OP_ASSIGN son1 son2) g = Some (node, g')" and "ok node"
  shows "\<exists>left g1 right.
           ir_visit_ast_node son1 g = Some (left, g1) \<and> ok left \<and>
           ir_visit_ast_node son2 g1 = Some (right, g') \<and> ok right \<and>
           blockInsts node =
             blockInsts right @ blockInsts left @ [MoveInstruction (val left) (val right)] \<and>
           val node = Some (InstValue (MoveInstruction (val left) (val right)))"
  using assms
  by (auto simp: mk_out_def Let_def split: option.splits if_splits)

theorem ir_assign_order_witness:
  "\<exists>node g'.
     ir_visit_ast_node assign_example in_main = Some (node, g') \<and> ok node \<and>
     blockInsts node =
       [BinaryInstruction IRINST_OP_ADD_I (Some (ConstInt 1)) (Some (ConstInt 2)) IntegerType_Int,
        MoveInstruction (Some (LocalVariable IntegerType_Int ''x'' 2))
          (Some (InstValue (BinaryInstruction IRINST_OP_ADD_I (Some (ConstInt 1))
             (Some (ConstInt 2)) IntegerType_Int)))] \<and>
     val node = Some (InstValue (MoveInstruction (Some (LocalVariable IntegerType_Int ''x'' 2))
          (Some (InstValue (BinaryInstruction IRINST_OP_ADD_I (Some (ConstInt 1))
             (Some (ConstInt 2)) IntegerType_Int)))))"
proof -
  have "\<exists>node g'. ir_visit_ast_node assign_example in_main = Some (node, g') \<and> ok node"
    by (simp add: assign_example_def in_main_def eval_defs)
  then obtain node g' where h:
    "ir_visit_ast_node (AST_OP_ASSIGN (AST_OP_LEAF_VAR_ID ''x'')
       (ARITH AST_OP_ADD (AST_OP_LEAF_LITERAL_UINT 1) (AST_OP_LEAF_LITERAL_UINT 2))) in_main
     = Some (node, g')" "ok node"
    unfolding assign_example_def by blast
  from ir_assign_order[OF h] h show ?thesis
    unfolding assign_example_def
    by (auto simp: in_main_def eval_defs)
qed

text \<open>
  C9 (declaration statement).  The claim asks that a \<open>DECL_STMT\<close> without \<open>VAR_DECL\<close>
  children makes its handler fail and that this aborts the whole translation, and that
  a \<open>DECL_STMT\<close> with children succeeds and declares each child as a fresh local.  The
  handler does fail on the empty statement, and as the body of \<^verbatim>\<open>main\<close> it makes \<open>run\<close>
  return false.  But in the block of an \<open>if\<close> or of a \<open>while\<close> the failure reaches
  \<^verbatim>\<open>ir_if\<close> or \<^verbatim>\<open>ir_while\<close>, which do not look at it (the defect of C2), and \<open>run\<close> returns
  true: the translation is not aborted.  Inside \<^verbatim>\<open>main\<close> the statement \<^verbatim>\<open>int a, b;\<close> succeeds
  and binds \<^verbatim>\<open>a\<close> and \<^verbatim>\<open>b\<close> to two new locals.
\<close>

theorem empty_decl_failure_not_aborting:
  "ok (fst (ir_declare_statment [] in_main)) = False \<and>
   map_option (\<lambda>(node, g). ok node) (ir_visit_ast_node (AST_OP_DECL_STMT []) in_main)
     = Some False \<and>
   map_option fst (run decl_body_unit initial) = Some False \<and>
   map_option fst (run decl_if_unit initial) = Some True \<and>
   map_option fst (run decl_while_unit initial) = Some True \<and>
   ok (fst (ir_declare_statment [(IntegerType_Int, ''a''), (IntegerType_Int, ''b'')] in_main)) \<and>
   findVarValue ''a''
     (snd (ir_declare_statment [(IntegerType_Int, ''a''), (IntegerType_Int, ''b'')] in_main))
     = Some (LocalVariable IntegerType_Int ''a'' 3) \<and>
   findVarValue ''b''
     (snd (ir_declare_statment [(IntegerType_Int, ''a''), (IntegerType_Int, ''b'')] in_main))
     = Some (LocalVariable IntegerType_Int ''b'' 4)"
  by (simp add: decl_body_unit_def decl_if_unit_def decl_while_unit_def in_main_def eval_defs)

text \<open>
  C10 (call statistics).  For every call inside a function whose callee is found, the
  handler first sets the current function's \<open>existFuncCall\<close> flag and, when there are
  arguments and their count is larger, raises its \<open>maxFuncCallArgCnt\<close> to the count; only
  then it visits the arguments and checks the arity.  So when the handler returns, also
  when it fails with the arity mismatch, the flag of the current function is set and the
  maximum is at least the old one and at least the count of a non-empty argument list.
\<close>

theorem ir_function_call_notes_call:
  assumes "currentFunc g = Some cf" and "funcs g cf = Some F"
    and "findFunction funcName g = Some callee"
  shows "\<exists>realParams g1 node g' F'.
      funcs (noteFuncCall cf (length args) g) cf =
        Some (F\<lparr>existFuncCall := True,
                 maxFuncCallArgCnt :=
                   (if args \<noteq> [] \<and> maxFuncCallArgCnt F < int32_of_size (length args)
                    then int32_of_size (length args) else maxFuncCallArgCnt F)\<rparr>) \<and>
      ir_visit_sons args (noteFuncCall cf (length args) g) = Some (realParams, g1) \<and>
      ir_visit_ast_node (AST_OP_FUNC_CALL funcName lineno args) g = Some (node, g') \<and>
      (sons_ok realParams \<and> length args \<noteq> length (params callee) \<longrightarrow>
         \<not> ok node \<and> g' = minic_log (FuncCallMismatch lineno funcName) g1) \<and>
      funcs g' cf = Some F' \<and> existFuncCall F' \<and>
      maxFuncCallArgCnt F \<le> maxFuncCallArgCnt F' \<and>
      (args \<noteq> [] \<longrightarrow> int32_of_size (length args) \<le> maxFuncCallArgCnt F')"
proof -
  obtain realParams g1 F1
    where s: "ir_visit_sons args (noteFuncCall cf (length args) g) = Some (realParams, g1)"
    and F1: "funcs g1 cf = Some F1" "func_step (callNoted (length args) F) F1"
    using call_sons[OF assms(1,2)] by blast
  note u = call_unfold[OF assms(1,3) s, of lineno]
  have fN: "funcs (noteFuncCall cf (length args) g) cf = Some (callNoted (length args) F)"
    using assms(2) by (simp add: noteFuncCall_eq)
  have st: "existFuncCall F1" "maxFuncCallArgCnt F \<le> maxFuncCallArgCnt F1"
    "args \<noteq> [] \<longrightarrow> int32_of_size (length args) \<le> maxFuncCallArgCnt F1"
    using F1(2) by (auto simp: func_step_def callNoted_def split: if_splits)
  show ?thesis
    apply (rule exI[of _ realParams], rule exI[of _ g1])
    apply (simp only: u fN s)
    using F1(1) st
    apply (auto simp: callNoted_def mk_out_def minic_log_def)
    done
qed

theorem ir_function_call_notes_call_witness:
  "currentFunc in_main = Some ''main'' \<and> funcs in_main ''main'' = Some main_fun \<and>
   findFunction ''f'' in_main = Some f_fun \<and>
   existFuncCall main_fun = False \<and> maxFuncCallArgCnt main_fun = 0 \<and>
   map_option (\<lambda>(node, g). (ok node, errors g,
                  map_option (\<lambda>F. (existFuncCall F, maxFuncCallArgCnt F)) (funcs g ''main'')))
     (ir_visit_ast_node
        (AST_OP_FUNC_CALL ''f'' 7 [AST_OP_LEAF_LITERAL_UINT 1, AST_OP_LEAF_LITERAL_UINT 2])
        in_main)
     = Some (False, [FuncCallMismatch 7 ''f''], Some (True, 2))"
proof -
  have h: "currentFunc in_main = Some ''main''" "funcs in_main ''main'' = Some main_fun"
    "findFunction ''f'' in_main = Some f_fun"
    by (simp_all add: in_main_def findFunction_def)
  show ?thesis
    using h ir_function_call_notes_call[OF h, of
        "[AST_OP_LEAF_LITERAL_UINT 1, AST_OP_LEAF_LITERAL_UINT 2]" 7]
    by (simp add: in_main_def f_fun_def main_fun_def eval_defs)
qed

end
